theory Spec2Isabelle
  imports Complex_Main "HOL-Library.Word" "HOL-Library.Sublist" "HOL-Library.Log_Nat"
begin

section \<open>JavaScript values used by the handlers\<close>

text \<open>
  A JavaScript string is a sequence of UTF-16 code units. Literals of the source are
  written \<open>js ''...''\<close>.

  A number of a JSON request body may be fractional, so a body field holds a \<open>rat\<close>
  (the value of the parsed double).
\<close>

type_synonym jsstring = "16 word list"

definition js :: "string \<Rightarrow> jsstring" where
  "js s = map of_char s"

datatype jsval = JUndefined | JNull | JBool bool | JNum rat | JStr jsstring | JObj

text \<open>Truthiness (\<open>ToBoolean\<close>): what \<open>!v\<close>, \<open>v && ...\<close> and \<open>v ? a : b\<close> test.\<close>

fun truthy :: "jsval \<Rightarrow> bool" where
  "truthy JUndefined = False"
| "truthy JNull = False"
| "truthy (JBool b) = b"
| "truthy (JNum q) = (q \<noteq> 0)"
| "truthy (JStr s) = (s \<noteq> [])"
| "truthy JObj = True"

fun typeof_string :: "jsval \<Rightarrow> bool" where
  "typeof_string (JStr s) = True"
| "typeof_string _ = False"

text \<open>\<open>Number.isInteger(v)\<close>: a number whose floor is itself.\<close>

fun isInteger :: "jsval \<Rightarrow> bool" where
  "isInteger (JNum q) = (rat_of_int \<lfloor>q\<rfloor> = q)"
| "isInteger _ = False"

text \<open>
  \<open>v < 1\<close>. The source evaluates it only after \<open>Number.isInteger(v)\<close> held (the
  \<open>||\<close> short-circuits), that is on numbers.
\<close>

fun less_than_1 :: "jsval \<Rightarrow> bool" where
  "less_than_1 (JNum q) = (q < 1)"
| "less_than_1 _ = False"

text \<open>
  The numbers the handlers compute with (epoch milliseconds, seconds, view counts) are
  doubles whose value is an integer, an infinity or NaN. A double has a significand of
  53 bits: \<open>round_even\<close> is the integer nearest to \<open>x\<close> that has one (ties to the even
  significand), and \<open>to_number\<close> is the double that \<open>Number(...)\<close> makes of the decimal
  text of \<open>x\<close>, and that an arithmetic operation makes of its exact result \<open>x\<close>:
  infinite from \<open>2^1024 - 2^970\<close> on, which is where \<open>round_even\<close> reaches \<open>2^1024\<close>.
\<close>

datatype number = Fin int | PosInf | NegInf | NaN

definition round_even :: "int \<Rightarrow> int" where
  "round_even x =
     (if \<bar>x\<bar> < 2 ^ 53 then x
      else
        let e = nat (bitlen \<bar>x\<bar> - 53);
            q = \<bar>x\<bar> div 2 ^ e;
            m = \<bar>x\<bar> mod 2 ^ e;
            h = 2 ^ (e - 1);
            q' = (if h < m then q + 1 else if m = h \<and> odd q then q + 1 else q)
        in sgn x * (q' * 2 ^ e))"

definition to_number :: "int \<Rightarrow> number" where
  "to_number x =
     (if 2 ^ 1024 \<le> round_even x then PosInf
      else if round_even x \<le> - (2 ^ 1024) then NegInf
      else Fin (round_even x))"

text \<open>\<open>x + y\<close>, \<open>x - y\<close>, \<open>x * 1000\<close>, \<open>x >= y\<close>, \<open>Math.max(x, 0)\<close> and the truthiness of a number.\<close>

fun js_add :: "number \<Rightarrow> number \<Rightarrow> number" where
  "js_add (Fin a) (Fin b) = to_number (a + b)"
| "js_add NaN y = NaN"
| "js_add x NaN = NaN"
| "js_add PosInf NegInf = NaN"
| "js_add NegInf PosInf = NaN"
| "js_add PosInf y = PosInf"
| "js_add x PosInf = PosInf"
| "js_add NegInf y = NegInf"
| "js_add x NegInf = NegInf"

fun js_sub :: "number \<Rightarrow> number \<Rightarrow> number" where
  "js_sub (Fin a) (Fin b) = to_number (a - b)"
| "js_sub NaN y = NaN"
| "js_sub x NaN = NaN"
| "js_sub PosInf PosInf = NaN"
| "js_sub NegInf NegInf = NaN"
| "js_sub PosInf y = PosInf"
| "js_sub NegInf y = NegInf"
| "js_sub x PosInf = NegInf"
| "js_sub x NegInf = PosInf"

fun js_times_1000 :: "number \<Rightarrow> number" where
  "js_times_1000 (Fin a) = to_number (a * 1000)"
| "js_times_1000 PosInf = PosInf"
| "js_times_1000 NegInf = NegInf"
| "js_times_1000 NaN = NaN"

fun js_ge :: "number \<Rightarrow> number \<Rightarrow> bool" where
  "js_ge (Fin a) (Fin b) = (b \<le> a)"
| "js_ge NaN y = False"
| "js_ge x NaN = False"
| "js_ge PosInf y = True"
| "js_ge x NegInf = True"
| "js_ge x PosInf = False"
| "js_ge NegInf y = False"

fun js_max_0 :: "number \<Rightarrow> number" where
  "js_max_0 (Fin a) = Fin (max a 0)"
| "js_max_0 PosInf = PosInf"
| "js_max_0 NegInf = Fin 0"
| "js_max_0 NaN = NaN"

fun truthy_number :: "number \<Rightarrow> bool" where
  "truthy_number (Fin a) = (a \<noteq> 0)"
| "truthy_number PosInf = True"
| "truthy_number NegInf = True"
| "truthy_number NaN = False"

text \<open>
  A string reaches Redis, and comes back, as UTF-8: the client writes every surrogate
  code unit that is not part of a pair as U+FFFD. \<open>scrub\<close> is the string that comes
  back.
\<close>

definition high_surrogate :: "16 word \<Rightarrow> bool" where
  "high_surrogate c \<longleftrightarrow> 0xD800 \<le> c \<and> c \<le> 0xDBFF"

definition low_surrogate :: "16 word \<Rightarrow> bool" where
  "low_surrogate c \<longleftrightarrow> 0xDC00 \<le> c \<and> c \<le> 0xDFFF"

fun scrub :: "jsstring \<Rightarrow> jsstring" where
  "scrub [] = []"
| "scrub [a] = (if high_surrogate a then [0xFFFD] else if low_surrogate a then [0xFFFD] else [a])"
| "scrub (a # b # s) =
     (if high_surrogate a
      then (if low_surrogate b then a # b # scrub s else 0xFFFD # scrub (b # s))
      else if low_surrogate a then 0xFFFD # scrub (b # s)
      else a # scrub (b # s))"

text \<open>
  \<open>String.prototype.trim\<close> removes the code units of WhiteSpace and LineTerminator
  from both ends.
\<close>

definition is_white_space :: "16 word \<Rightarrow> bool" where
  "is_white_space c \<longleftrightarrow>
     c \<in> {0x0009, 0x000A, 0x000B, 0x000C, 0x000D, 0x0020, 0x00A0, 0x1680,
          0x2000, 0x2001, 0x2002, 0x2003, 0x2004, 0x2005, 0x2006, 0x2007,
          0x2008, 0x2009, 0x200A, 0x2028, 0x2029, 0x202F, 0x205F, 0x3000, 0xFEFF}"

definition trim :: "jsstring \<Rightarrow> jsstring" where
  "trim s = rev (dropWhile is_white_space (rev (dropWhile is_white_space s)))"

text \<open>
  \<open>new Date(x)\<close> is an invalid date when \<open>x\<close> is not finite or \<open>|x| > 8.64e15\<close>.
  \<open>toISOString()\<close> of
  an invalid date throws a RangeError; \<open>toLocaleString()\<close> returns the text
  \<open>Invalid Date\<close>. The rendered text of a valid date is kept as its time value.
\<close>

datatype exn = RedisError | RangeError

datatype date_text = Date_text int | Invalid_Date

fun valid_time :: "number \<Rightarrow> bool" where
  "valid_time (Fin ms) = (\<bar>ms\<bar> \<le> 8640000000000000)"
| "valid_time x = False"

fun time_value :: "number \<Rightarrow> int" where
  "time_value (Fin ms) = ms"
| "time_value x = 0"

definition toISOString :: "number \<Rightarrow> exn + date_text" where
  "toISOString x = (if valid_time x then Inr (Date_text (time_value x)) else Inl RangeError)"

definition toLocaleString :: "number \<Rightarrow> date_text" where
  "toLocaleString x = (if valid_time x then Date_text (time_value x) else Invalid_Date)"

section \<open>Helpers of the source\<close>

text \<open>
  \<^verbatim>\<open>
  function escapeHtml(str) {
    return str.replace(/[&<>"']/g, c => ({
      '&': '&amp;', '<': '&lt;', '>': '&gt;', '"': '&quot;', "'": '&#39;',
    }[c]));
  }
  \<close>
  The character class and the table are kept apart, as in the source; a match with no
  entry in the table would be replaced by the text \<open>undefined\<close>.
\<close>

definition html_special :: "16 word \<Rightarrow> bool" where
  "html_special c \<longleftrightarrow> c \<in> {0x26, 0x3C, 0x3E, 0x22, 0x27}"

definition entity_table :: "16 word \<rightharpoonup> jsstring" where
  "entity_table =
     [0x26 \<mapsto> js ''&amp;'', 0x3C \<mapsto> js ''&lt;'', 0x3E \<mapsto> js ''&gt;'',
      0x22 \<mapsto> js ''&quot;'', 0x27 \<mapsto> js ''&#39;'']"

definition replacement :: "16 word \<Rightarrow> jsstring" where
  "replacement c =
     (if html_special c
      then (case entity_table c of Some e \<Rightarrow> e | None \<Rightarrow> js ''undefined'')
      else [c])"

definition escapeHtml :: "jsstring \<Rightarrow> jsstring" where
  "escapeHtml str = concat (map replacement str)"

text \<open>
  \<^verbatim>\<open>
  function now(req) {
    if (process.env.TEST_MODE === '1' && req.headers['x-test-now-ms']) {
      return Number(req.headers['x-test-now-ms']);
    }
    return Date.now();
  }
  \<close>
  \<open>clock\<close> is what \<open>Date.now()\<close> returns during the request, \<open>uuid\<close> what
  \<open>uuidv4()\<close> returns. The header, when present and not empty, is taken to hold the
  decimal text of an integer. A creation request
  is the three fields the handler takes from \<open>req.body\<close> (\<open>undefined\<close> when the
  body has no such field) and the \<open>Host\<close> header.
\<close>

record env =
  test_mode :: bool
  clock :: int
  uuid :: jsstring

record get_req =
  params_id :: jsstring
  x_test_now_ms :: "int option"

record post_req =
  body_content :: jsval
  body_ttl_seconds :: jsval
  body_max_views :: jsval
  host :: "jsstring option"

definition now :: "env \<Rightarrow> get_req \<Rightarrow> number" where
  "now e rq =
     (if test_mode e
      then (case x_test_now_ms rq of Some t \<Rightarrow> to_number t | None \<Rightarrow> to_number (clock e))
      else to_number (clock e))"

section \<open>The Redis store\<close>

text \<open>
  A paste is the Redis hash \<open>paste:<id>\<close> with the fields \<open>content\<close>,
  \<open>created_at\<close>, \<open>ttl_seconds\<close>, \<open>max_views\<close> and \<open>views\<close>. Redis keeps every
  field as text: a number is written as text and read back with \<open>Number(...)\<close>, and
  an absent limit is written as the empty string. The model keeps the integer the text
  stands for, and \<open>None\<close> for the empty string; reading it applies \<open>to_number\<close>.
  (From \<open>1e16\<close> on, the text JavaScript writes for a double may stand for another
  integer, one that reads back as the same double; the model keeps the value of the
  double there.) A
  hash without a \<open>content\<close> field has the empty \<open>content\<close> here: both are falsy,
  and the handlers read no other field of such a hash.

  \<open>expires\<close> holds the time to live, in seconds, that \<open>EXPIRE\<close> registered for a
  key, \<open>server_ms\<close> the clock of the server. \<open>ready\<close> tells whether the client
  reaches the server: when it does not, every command rejects. Neither changes during
  one request. That Redis drops a key once its time to live has passed happens between
  requests and is no step of a handler.
\<close>

record paste =
  content :: jsstring
  created_at :: int
  ttl_seconds :: "int option"
  max_views :: "int option"
  views :: int

record redis =
  ready :: bool
  server_ms :: int
  hashes :: "jsstring \<rightharpoonup> paste"
  expires :: "jsstring \<rightharpoonup> int"

text \<open>\<open>hSet\<close> writes the five fields; the content arrives as UTF-8.\<close>

definition hSet :: "jsstring \<Rightarrow> paste \<Rightarrow> redis \<Rightarrow> exn + redis" where
  "hSet key p r =
     (if ready r
      then Inr (r\<lparr>hashes := (hashes r)(key \<mapsto> p\<lparr>content := scrub (content p)\<rparr>)\<rparr>)
      else Inl RedisError)"

text \<open>
  A 64-bit signed integer, which is what Redis takes as the argument of \<open>EXPIRE\<close> and
  keeps as a counter. (A double from \<open>1e21\<close> on is sent as text with an exponent,
  which is no integer to Redis; it is outside this range as well.)
\<close>

definition int64 :: "int \<Rightarrow> bool" where
  "int64 n \<longleftrightarrow> - 9223372036854775808 \<le> n \<and> n \<le> 9223372036854775807"

text \<open>
  \<open>EXPIRE key seconds\<close>: an error when \<open>seconds\<close> is no 64-bit integer, or when the
  expiry in milliseconds, \<open>seconds * 1000\<close> added to the clock of the server, would
  not be one; nothing to do for a missing key; a key whose expiry is not in the future
  is deleted at once.
\<close>

definition expire_accepts :: "redis \<Rightarrow> int \<Rightarrow> bool" where
  "expire_accepts r seconds \<longleftrightarrow>
     int64 seconds \<and> int64 (seconds * 1000) \<and>
     seconds * 1000 \<le> 9223372036854775807 - server_ms r"

definition expire :: "jsstring \<Rightarrow> int \<Rightarrow> redis \<Rightarrow> exn + redis" where
  "expire key seconds r =
     (if ready r
      then (if expire_accepts r seconds
            then Inr (case hashes r key of
                        None \<Rightarrow> r
                      | Some p \<Rightarrow>
                          if seconds \<le> 0
                          then r\<lparr>hashes := (hashes r)(key := None),
                                 expires := (expires r)(key := None)\<rparr>
                          else r\<lparr>expires := (expires r)(key \<mapsto> seconds)\<rparr>)
            else Inl RedisError)
      else Inl RedisError)"

definition hGetAll :: "jsstring \<Rightarrow> redis \<Rightarrow> exn + paste option" where
  "hGetAll key r = (if ready r then Inr (hashes r key) else Inl RedisError)"

definition del :: "jsstring \<Rightarrow> redis \<Rightarrow> exn + redis" where
  "del key r =
     (if ready r
      then Inr (r\<lparr>hashes := (hashes r)(key := None), expires := (expires r)(key := None)\<rparr>)
      else Inl RedisError)"

text \<open>
  \<open>hIncrBy(key, 'views', 1)\<close> adds one to the field and returns the new value, which
  the client hands over as a number. It is an error when the field is no 64-bit integer
  or the sum would not be one. On a key that does not exist Redis creates a hash
  holding only \<open>views = 1\<close>.
\<close>

definition can_count :: "paste \<Rightarrow> bool" where
  "can_count p \<longleftrightarrow> int64 (views p) \<and> int64 (views p + 1)"

definition hIncrBy_views :: "jsstring \<Rightarrow> redis \<Rightarrow> exn + (number \<times> redis)" where
  "hIncrBy_views key r =
     (if ready r
      then (case hashes r key of
              None \<Rightarrow>
                Inr (to_number 1, r\<lparr>hashes := (hashes r)(key \<mapsto>
                  \<lparr>content = [], created_at = 0, ttl_seconds = None,
                   max_views = None, views = 1\<rparr>)\<rparr>)
            | Some p \<Rightarrow>
                if can_count p
                then Inr (to_number (views p + 1),
                          r\<lparr>hashes := (hashes r)(key \<mapsto> p\<lparr>views := views p + 1\<rparr>)\<rparr>)
                else Inl RedisError)
      else Inl RedisError)"

text \<open>The key \<open>`paste:${id}`\<close>, as it reaches Redis.\<close>

definition key_of :: "jsstring \<Rightarrow> jsstring" where
  "key_of ident = scrub (js ''paste:'' @ ident)"

text \<open>
  \<open>Number(paste.created_at)\<close>, \<open>paste.ttl_seconds ? Number(paste.ttl_seconds) : null\<close>,
  \<open>paste.max_views ? Number(paste.max_views) : null\<close> and \<open>Number(paste.views)\<close>.
\<close>

definition createdAt_of :: "paste \<Rightarrow> number" where
  "createdAt_of p = to_number (created_at p)"

definition ttl_of :: "paste \<Rightarrow> number option" where
  "ttl_of p = map_option to_number (ttl_seconds p)"

definition maxViews_of :: "paste \<Rightarrow> number option" where
  "maxViews_of p = map_option to_number (max_views p)"

definition views_of :: "paste \<Rightarrow> number" where
  "views_of p = to_number (views p)"

section \<open>Responses\<close>

datatype body =
    Json_error string
  | Json_created jsstring jsstring
  | Json_paste jsstring "number option" "date_text option"
  | Html_error string
  | Html_paste jsstring jsstring number "number option" "date_text option"
  | Html_paste_short jsstring number "number option"

record response =
  status :: nat
  body :: body

definition respond :: "nat \<Rightarrow> body \<Rightarrow> response" where
  "respond code b = \<lparr>status = code, body = b\<rparr>"

section \<open>The conditions of the handlers\<close>

text \<open>
  \<open>!content || typeof content !== 'string' || !content.trim()\<close>: \<open>trim\<close> is called
  only on a string.
\<close>

definition content_rejected :: "jsval \<Rightarrow> bool" where
  "content_rejected c =
     (if \<not> truthy c then True
      else if \<not> typeof_string c then True
      else (case c of JStr s \<Rightarrow> \<not> truthy (JStr (trim s)) | _ \<Rightarrow> True))"

definition string_of :: "jsval \<Rightarrow> jsstring" where
  "string_of c = (case c of JStr s \<Rightarrow> s | _ \<Rightarrow> [])"

text \<open>\<open>v !== undefined && (!Number.isInteger(v) || v < 1)\<close>\<close>

definition limit_rejected :: "jsval \<Rightarrow> bool" where
  "limit_rejected v = (v \<noteq> JUndefined \<and> (if isInteger v then less_than_1 v else True))"

text \<open>
  \<open>v ?? ''\<close> as the hash field: the number, or the empty marker for \<open>undefined\<close>.
  After the checks \<open>v\<close> is \<open>undefined\<close> or an integer. The same integer is the
  argument of \<open>expire\<close>.
\<close>

definition limit_field :: "jsval \<Rightarrow> int option" where
  "limit_field v = (case v of JNum q \<Rightarrow> Some \<lfloor>q\<rfloor> | _ \<Rightarrow> None)"

text \<open>\<open>ttl && currentTime >= createdAt + ttl * 1000\<close>\<close>

definition ttl_reached :: "number option \<Rightarrow> number \<Rightarrow> number \<Rightarrow> bool" where
  "ttl_reached ttl createdAt currentTime =
     (case ttl of
        None \<Rightarrow> False
      | Some t \<Rightarrow>
          truthy_number t \<and> js_ge currentTime (js_add createdAt (js_times_1000 t)))"

text \<open>\<open>maxViews && views >= maxViews\<close>\<close>

definition limit_reached :: "number option \<Rightarrow> number \<Rightarrow> bool" where
  "limit_reached maxViews n =
     (case maxViews of None \<Rightarrow> False | Some m \<Rightarrow> truthy_number m \<and> js_ge n m)"

text \<open>\<open>maxViews ? Math.max(maxViews - newViews, 0) : null\<close>\<close>

definition remaining_views :: "number option \<Rightarrow> number \<Rightarrow> number option" where
  "remaining_views maxViews newViews =
     (case maxViews of
        None \<Rightarrow> None
      | Some m \<Rightarrow> if truthy_number m then Some (js_max_0 (js_sub m newViews)) else None)"

text \<open>\<open>ttl ? new Date(createdAt + ttl * 1000).toISOString() : null\<close>\<close>

definition expires_at :: "number option \<Rightarrow> number \<Rightarrow> exn + date_text option" where
  "expires_at ttl createdAt =
     (case ttl of
        None \<Rightarrow> Inr None
      | Some t \<Rightarrow>
          if truthy_number t
          then (case toISOString (js_add createdAt (js_times_1000 t)) of
                  Inl x \<Rightarrow> Inl x
                | Inr d \<Rightarrow> Inr (Some d))
          else Inr None)"

text \<open>\<open>ttl ? new Date(createdAt + ttl * 1000).toLocaleString() : 'Never'\<close>\<close>

definition expires_text :: "number option \<Rightarrow> number \<Rightarrow> date_text option" where
  "expires_text ttl createdAt =
     (case ttl of
        None \<Rightarrow> None
      | Some t \<Rightarrow>
          if truthy_number t
          then Some (toLocaleString (js_add createdAt (js_times_1000 t)))
          else None)"

text \<open>\<open>` / ${maxViews}`\<close> when \<open>maxViews\<close> is truthy, else nothing.\<close>

definition shown_limit :: "number option \<Rightarrow> number option" where
  "shown_limit maxViews =
     (case maxViews of None \<Rightarrow> None | Some m \<Rightarrow> if truthy_number m then Some m else None)"

text \<open>
  \<open>req.get('host')?.includes('localhost') ? 'http://localhost:3000' : `https://${host}`\<close>
\<close>

definition baseUrl :: "jsstring option \<Rightarrow> jsstring" where
  "baseUrl h =
     (case h of
        None \<Rightarrow> js ''https://undefined''
      | Some n \<Rightarrow>
          if sublist (js ''localhost'') n then js ''http://localhost:3000''
          else js ''https://'' @ n)"

section \<open>The handlers of server.js\<close>

text \<open>
  \<open>app.post('/api/pastes', ...)\<close>: the three checks, then \<open>hSet\<close> of the new hash
  under the first eight characters of a fresh UUID, then \<open>expire\<close> when
  \<open>ttl_seconds\<close> is truthy. A rejected Redis command is caught and answered with 500.
  A handler returns its response and the store it leaves.
\<close>

definition post_api_pastes :: "env \<Rightarrow> post_req \<Rightarrow> redis \<Rightarrow> response \<times> redis" where
  "post_api_pastes e rq r =
     (if content_rejected (body_content rq)
      then (respond 400 (Json_error ''content must be a non-empty string''), r)
      else if limit_rejected (body_ttl_seconds rq)
      then (respond 400 (Json_error ''ttl_seconds must be integer >= 1''), r)
      else if limit_rejected (body_max_views rq)
      then (respond 400 (Json_error ''max_views must be integer >= 1''), r)
      else
        let ident = take 8 (uuid e);
            key = key_of ident;
            createdAt = clock e
        in case hSet key
                  \<lparr>content = trim (string_of (body_content rq)),
                   created_at = createdAt,
                   ttl_seconds = limit_field (body_ttl_seconds rq),
                   max_views = limit_field (body_max_views rq),
                   views = 0\<rparr> r of
             Inl x \<Rightarrow> (respond 500 (Json_error ''Internal server error''), r)
           | Inr r1 \<Rightarrow>
               (case (if truthy (body_ttl_seconds rq)
                      then (case limit_field (body_ttl_seconds rq) of
                              Some t \<Rightarrow> expire key t r1
                            | None \<Rightarrow> Inr r1)
                      else Inr r1) of
                  Inl x \<Rightarrow> (respond 500 (Json_error ''Internal server error''), r1)
                | Inr r2 \<Rightarrow>
                    (respond 201
                       (Json_created ident (baseUrl (host rq) @ js ''/p/'' @ ident)), r2)))"

text \<open>
  \<open>app.get('/api/pastes/:id', ...)\<close>: read the hash; 404 when there is none or its
  content is falsy; the time check, then the view check, each deleting the key before
  its 404; else the increment and the JSON body. \<open>toISOString\<close> is evaluated while the
  body is built, after the increment, inside the \<open>try\<close>.
\<close>

definition get_api_pastes_id :: "env \<Rightarrow> get_req \<Rightarrow> redis \<Rightarrow> response \<times> redis" where
  "get_api_pastes_id e rq r =
     (let key = key_of (params_id rq) in
      case hGetAll key r of
        Inl x \<Rightarrow> (respond 500 (Json_error ''Internal server error''), r)
      | Inr None \<Rightarrow> (respond 404 (Json_error ''Paste not found''), r)
      | Inr (Some p) \<Rightarrow>
          if content p = [] then (respond 404 (Json_error ''Paste not found''), r)
          else
            let createdAt = createdAt_of p;
                ttl = ttl_of p;
                maxViews = maxViews_of p;
                currentTime = now e rq
            in if ttl_reached ttl createdAt currentTime
               then (case del key r of
                       Inl x \<Rightarrow> (respond 500 (Json_error ''Internal server error''), r)
                     | Inr r1 \<Rightarrow> (respond 404 (Json_error ''Paste expired''), r1))
               else if limit_reached maxViews (views_of p)
               then (case del key r of
                       Inl x \<Rightarrow> (respond 500 (Json_error ''Internal server error''), r)
                     | Inr r1 \<Rightarrow> (respond 404 (Json_error ''View limit exceeded''), r1))
               else (case hIncrBy_views key r of
                       Inl x \<Rightarrow> (respond 500 (Json_error ''Internal server error''), r)
                     | Inr (newViews, r1) \<Rightarrow>
                         (case expires_at ttl createdAt of
                            Inl x \<Rightarrow> (respond 500 (Json_error ''Internal server error''), r1)
                          | Inr ex \<Rightarrow>
                              (respond 200
                                 (Json_paste (content p)
                                    (remaining_views maxViews newViews) ex), r1))))"

text \<open>
  \<open>app.get('/p/:id', ...)\<close>: the same steps, answering with HTML. The page of a paste
  is kept by its parts: the id of the title, the escaped content of the \<open>pre\<close>
  element, the views shown, the limit shown and the expiry shown.
\<close>

definition get_p_id :: "env \<Rightarrow> get_req \<Rightarrow> redis \<Rightarrow> response \<times> redis" where
  "get_p_id e rq r =
     (let key = key_of (params_id rq) in
      case hGetAll key r of
        Inl x \<Rightarrow> (respond 500 (Html_error ''<h1>Server error</h1>''), r)
      | Inr None \<Rightarrow> (respond 404 (Html_error ''<h1>404 - Paste not found</h1>''), r)
      | Inr (Some p) \<Rightarrow>
          if content p = []
          then (respond 404 (Html_error ''<h1>404 - Paste not found</h1>''), r)
          else
            let createdAt = createdAt_of p;
                ttl = ttl_of p;
                maxViews = maxViews_of p;
                currentTime = now e rq
            in if ttl_reached ttl createdAt currentTime
               then (case del key r of
                       Inl x \<Rightarrow> (respond 500 (Html_error ''<h1>Server error</h1>''), r)
                     | Inr r1 \<Rightarrow>
                         (respond 404 (Html_error ''<h1>404 - Paste expired</h1>''), r1))
               else if limit_reached maxViews (views_of p)
               then (case del key r of
                       Inl x \<Rightarrow> (respond 500 (Html_error ''<h1>Server error</h1>''), r)
                     | Inr r1 \<Rightarrow>
                         (respond 404 (Html_error ''<h1>404 - View limit exceeded</h1>''), r1))
               else (case hIncrBy_views key r of
                       Inl x \<Rightarrow> (respond 500 (Html_error ''<h1>Server error</h1>''), r)
                     | Inr (newViews, r1) \<Rightarrow>
                         (respond 200
                            (Html_paste (params_id rq) (escapeHtml (content p)) newViews
                               (shown_limit maxViews) (expires_text ttl createdAt)), r1)))"

section \<open>The handlers of the second server file\<close>

text \<open>
  The second source file holds the same three routes without \<open>try\<close>/\<open>catch\<close>,
  without \<open>expire\<close> and without \<open>del\<close>. An exception leaves the handler and no
  response is sent: the response is \<open>None\<close>.
\<close>

definition post_api_pastes_2 :: "env \<Rightarrow> post_req \<Rightarrow> redis \<Rightarrow> response option \<times> redis" where
  "post_api_pastes_2 e rq r =
     (if content_rejected (body_content rq)
      then (Some (respond 400 (Json_error ''content required'')), r)
      else if limit_rejected (body_ttl_seconds rq)
      then (Some (respond 400 (Json_error ''invalid ttl_seconds'')), r)
      else if limit_rejected (body_max_views rq)
      then (Some (respond 400 (Json_error ''invalid max_views'')), r)
      else
        let ident = take 8 (uuid e);
            key = key_of ident
        in case hSet key
                  \<lparr>content = trim (string_of (body_content rq)),
                   created_at = clock e,
                   ttl_seconds = limit_field (body_ttl_seconds rq),
                   max_views = limit_field (body_max_views rq),
                   views = 0\<rparr> r of
             Inl x \<Rightarrow> (None, r)
           | Inr r1 \<Rightarrow>
               (Some (respond 201
                  (Json_created ident (js ''http://localhost:3000/p/'' @ ident))), r1))"

definition get_api_pastes_id_2 :: "env \<Rightarrow> get_req \<Rightarrow> redis \<Rightarrow> response option \<times> redis" where
  "get_api_pastes_id_2 e rq r =
     (let key = key_of (params_id rq) in
      case hGetAll key r of
        Inl x \<Rightarrow> (None, r)
      | Inr None \<Rightarrow> (Some (respond 404 (Json_error ''Not found'')), r)
      | Inr (Some p) \<Rightarrow>
          if content p = [] then (Some (respond 404 (Json_error ''Not found'')), r)
          else
            let nowMs = now e rq;
                created = createdAt_of p;
                ttl = ttl_of p;
                maxViews = maxViews_of p
            in if ttl_reached ttl created nowMs
               then (Some (respond 404 (Json_error ''Expired'')), r)
               else if limit_reached maxViews (views_of p)
               then (Some (respond 404 (Json_error ''View limit exceeded'')), r)
               else (case hIncrBy_views key r of
                       Inl x \<Rightarrow> (None, r)
                     | Inr (newViews, r1) \<Rightarrow>
                         (case expires_at ttl created of
                            Inl x \<Rightarrow> (None, r1)
                          | Inr ex \<Rightarrow>
                              (Some (respond 200
                                 (Json_paste (content p)
                                    (remaining_views maxViews newViews) ex)), r1))))"

definition get_p_id_2 :: "env \<Rightarrow> get_req \<Rightarrow> redis \<Rightarrow> response option \<times> redis" where
  "get_p_id_2 e rq r =
     (let key = key_of (params_id rq) in
      case hGetAll key r of
        Inl x \<Rightarrow> (None, r)
      | Inr None \<Rightarrow> (Some (respond 404 (Html_error ''<h1>404 - Paste not found</h1>'')), r)
      | Inr (Some p) \<Rightarrow>
          if content p = []
          then (Some (respond 404 (Html_error ''<h1>404 - Paste not found</h1>'')), r)
          else
            let nowMs = now e rq;
                created = createdAt_of p;
                ttl = ttl_of p;
                maxViews = maxViews_of p
            in if ttl_reached ttl created nowMs
               then (Some (respond 404 (Html_error ''<h1>Expired</h1>'')), r)
               else if limit_reached maxViews (views_of p)
               then (Some (respond 404 (Html_error ''<h1>View limit exceeded</h1>'')), r)
               else (case hIncrBy_views key r of
                       Inl x \<Rightarrow> (None, r)
                     | Inr (newViews, r1) \<Rightarrow>
                         (Some (respond 200
                            (Html_paste_short (escapeHtml (content p)) newViews
                               (shown_limit maxViews))), r1)))"

section \<open>Sequences of retrievals\<close>

text \<open>Retrievals handled one after the other, each on the store the one before left.\<close>

fun retrievals :: "(env \<times> get_req) list \<Rightarrow> redis \<Rightarrow> response list \<times> redis" where
  "retrievals [] r = ([], r)"
| "retrievals (q # qs) r =
     (let (resp, r1) = get_api_pastes_id (fst q) (snd q) r;
          (resps, r2) = retrievals qs r1
      in (resp # resps, r2))"

fun retrievals_2 :: "(env \<times> get_req) list \<Rightarrow> redis \<Rightarrow> response option list \<times> redis" where
  "retrievals_2 [] r = ([], r)"
| "retrievals_2 (q # qs) r =
     (let (resp, r1) = get_api_pastes_id_2 (fst q) (snd q) r;
          (resps, r2) = retrievals_2 qs r1
      in (resp # resps, r2))"

section \<open>What the specification calls valid\<close>

text \<open>
  The specification's validity of a creation request, in its own words: the content is
  a string that is not empty after trimming; \<open>ttl_seconds\<close> and \<open>max_views\<close>, if
  given, are integers \<open>\<ge> 1\<close> (a rational is an integer when its denominator in lowest
  terms is 1).
\<close>

definition valid_content :: "jsval \<Rightarrow> bool" where
  "valid_content c = (case c of JStr s \<Rightarrow> trim s \<noteq> [] | _ \<Rightarrow> False)"

definition valid_limit :: "jsval \<Rightarrow> bool" where
  "valid_limit v =
     (case v of
        JUndefined \<Rightarrow> True
      | JNum q \<Rightarrow> snd (quotient_of q) = 1 \<and> 1 \<le> q
      | _ \<Rightarrow> False)"

definition invalid_input :: "post_req \<Rightarrow> bool" where
  "invalid_input rq \<longleftrightarrow>
     \<not> valid_content (body_content rq) \<or> \<not> valid_limit (body_ttl_seconds rq)
       \<or> \<not> valid_limit (body_max_views rq)"

text \<open>
  The text \<open>uuidv4()\<close> of the uuid package returns: 36 characters, lower-case
  hexadecimal digits in groups of 8, 4, 4, 4 and 12 separated by \<open>-\<close>, the third
  group starting with \<open>4\<close> and the fourth with \<open>8\<close>, \<open>9\<close>, \<open>a\<close> or \<open>b\<close>.
\<close>

definition is_hex :: "16 word \<Rightarrow> bool" where
  "is_hex c \<longleftrightarrow> c \<in> set (js ''0123456789abcdef'')"

definition uuid_v4_format :: "jsstring \<Rightarrow> bool" where
  "uuid_v4_format u \<longleftrightarrow>
     length u = 36 \<and>
     list_all is_hex (take 8 u) \<and> u ! 8 = 0x2D \<and>
     list_all is_hex (take 4 (drop 9 u)) \<and> u ! 13 = 0x2D \<and>
     u ! 14 = 0x34 \<and> list_all is_hex (take 3 (drop 15 u)) \<and> u ! 18 = 0x2D \<and>
     u ! 19 \<in> {0x38, 0x39, 0x61, 0x62} \<and> list_all is_hex (take 3 (drop 20 u)) \<and>
     u ! 23 = 0x2D \<and> list_all is_hex (drop 24 u)"

section \<open>The effect a retrieval may have on the store\<close>

text \<open>
  \<open>retrieval_effect k t r r'\<close>: going from the store \<open>r\<close> to \<open>r'\<close>, every key holds
  what it held, except that the key \<open>k\<close> may have been deleted, or may hold its
  former hash with \<open>views\<close> one higher and nothing else changed, the latter only when
  that hash had content and neither check of the handlers stopped it at the time \<open>t\<close>.
\<close>

definition viewed_once :: "number \<Rightarrow> paste option \<Rightarrow> paste option \<Rightarrow> bool" where
  "viewed_once t before after =
     (case before of
        None \<Rightarrow> False
      | Some p \<Rightarrow>
          content p \<noteq> [] \<and> \<not> ttl_reached (ttl_of p) (createdAt_of p) t \<and>
          \<not> limit_reached (maxViews_of p) (views_of p) \<and>
          after = Some (p\<lparr>views := views p + 1\<rparr>))"

definition retrieval_effect :: "jsstring \<Rightarrow> number \<Rightarrow> redis \<Rightarrow> redis \<Rightarrow> bool" where
  "retrieval_effect k t r r' \<longleftrightarrow>
     (\<forall>k'. hashes r' k' = hashes r k' \<or>
        (k' = k \<and> (hashes r' k = None \<or> viewed_once t (hashes r k) (hashes r' k))))"

text \<open>No hash of \<open>r'\<close> differs from the one \<open>r\<close> holds under the same key.\<close>

definition nothing_written :: "redis \<Rightarrow> redis \<Rightarrow> bool" where
  "nothing_written r r' \<longleftrightarrow> (\<forall>k'. hashes r' k' = hashes r k' \<or> hashes r' k' = None)"

section \<open>Example inputs\<close>

text \<open>A reachable store with no paste, a clock, and a creation request from its body.\<close>

definition empty_store :: redis where
  "empty_store =
     \<lparr>ready = True, server_ms = 1700000000000, hashes = Map.empty, expires = Map.empty\<rparr>"

definition env_at :: "int \<Rightarrow> env" where
  "env_at t = \<lparr>test_mode = False, clock = t, uuid = js ''3f2a9c1e-7b4d-4e8a-9c0f-1a2b3c4d5e6f''\<rparr>"

definition test_env_at :: "int \<Rightarrow> env" where
  "test_env_at t = \<lparr>test_mode = True, clock = t, uuid = js ''3f2a9c1e-7b4d-4e8a-9c0f-1a2b3c4d5e6f''\<rparr>"

definition request :: "jsval \<Rightarrow> jsval \<Rightarrow> jsval \<Rightarrow> post_req" where
  "request c t m =
     \<lparr>body_content = c, body_ttl_seconds = t, body_max_views = m,
      host = Some (js ''localhost:3000'')\<rparr>"

definition fetch :: "jsstring \<Rightarrow> get_req" where
  "fetch ident = \<lparr>params_id = ident, x_test_now_ms = None\<rparr>"

definition fetch_at :: "jsstring \<Rightarrow> int \<Rightarrow> get_req" where
  "fetch_at ident t = \<lparr>params_id = ident, x_test_now_ms = Some t\<rparr>"

definition store_with :: "jsstring \<Rightarrow> paste \<Rightarrow> redis" where
  "store_with ident p =
     \<lparr>ready = True, server_ms = 1700000000000, hashes = [key_of ident \<mapsto> p],
      expires = Map.empty\<rparr>"

section \<open>Doubles on integers\<close>

lemma round_even_safe: "\<bar>x\<bar> \<le> 2 ^ 53 \<Longrightarrow> round_even x = x"
proof (cases "\<bar>x\<bar> < 2 ^ 53")
  case True
  then show ?thesis by (simp add: round_even_def)
next
  case False
  assume "\<bar>x\<bar> \<le> 2 ^ 53"
  with False have a: "\<bar>x\<bar> = 2 ^ 53" by simp
  have b: "bitlen 9007199254740992 = 54"
    by code_simp
  from a consider "x = 9007199254740992" | "x = - 9007199254740992"
    by (cases "0 \<le> x") simp_all
  then show ?thesis
    by cases (simp_all add: round_even_def Let_def b)
qed

lemma to_number_safe: "\<bar>x\<bar> \<le> 2 ^ 53 \<Longrightarrow> to_number x = Fin x"
proof -
  assume a: "\<bar>x\<bar> \<le> 2 ^ 53"
  have "(2::int) ^ 53 < 2 ^ 1024"
    by (rule power_strict_increasing) simp_all
  with a have "x < 2 ^ 1024" "- (2 ^ 1024) < x"
    by linarith+
  with a show ?thesis
    by (simp add: to_number_def round_even_safe)
qed

lemma to_number_beyond_safe:
  "to_number 9007199254740994 = Fin 9007199254740994"
  "to_number 9007199254740993 = Fin 9007199254740992"
proof -
  have b: "bitlen 9007199254740994 = 54" "bitlen 9007199254740993 = 54"
    by code_simp+
  have "round_even 9007199254740994 = 9007199254740994"
    "round_even 9007199254740993 = 9007199254740992"
    by (simp_all add: round_even_def Let_def b)
  then show "to_number 9007199254740994 = Fin 9007199254740994"
    "to_number 9007199254740993 = Fin 9007199254740992"
    by (simp_all add: to_number_def)
qed

lemma ttl_reached_safe:
  assumes "T \<noteq> 0" and "\<bar>T * 1000\<bar> \<le> 2 ^ 53" and "\<bar>c + T * 1000\<bar> \<le> 2 ^ 53"
  shows "ttl_reached (Some (Fin T)) (Fin c) (Fin t) \<longleftrightarrow> c + T * 1000 \<le> t"
  using assms by (simp add: ttl_reached_def to_number_safe)

lemma limit_reached_safe:
  "M \<noteq> 0 \<Longrightarrow> limit_reached (Some (Fin M)) (Fin n) \<longleftrightarrow> M \<le> n"
  by (simp add: limit_reached_def)

lemma remaining_views_safe:
  "M \<noteq> 0 \<Longrightarrow> \<bar>M - n\<bar> \<le> 2 ^ 53 \<Longrightarrow>
   remaining_views (Some (Fin M)) (Fin n) = Some (Fin (max (M - n) 0))"
  by (simp add: remaining_views_def to_number_safe)

lemma expires_at_safe:
  assumes "T \<noteq> 0" and "\<bar>T * 1000\<bar> \<le> 2 ^ 53" and "\<bar>c + T * 1000\<bar> \<le> 2 ^ 53"
  shows "expires_at (Some (Fin T)) (Fin c) =
           (if \<bar>c + T * 1000\<bar> \<le> 8640000000000000
            then Inr (Some (Date_text (c + T * 1000))) else Inl RangeError)"
  using assms by (simp add: expires_at_def toISOString_def to_number_safe)

lemma expires_text_safe:
  assumes "T \<noteq> 0" and "\<bar>T * 1000\<bar> \<le> 2 ^ 53" and "\<bar>c + T * 1000\<bar> \<le> 2 ^ 53"
  shows "expires_text (Some (Fin T)) (Fin c) =
           Some (if \<bar>c + T * 1000\<bar> \<le> 8640000000000000
                 then Date_text (c + T * 1000) else Invalid_Date)"
  using assms by (simp add: expires_text_def toLocaleString_def to_number_safe)

section \<open>Strings through the store\<close>

lemma scrub_empty_iff: "scrub s = [] \<longleftrightarrow> s = []"
  by (induction s rule: scrub.induct) simp_all

lemma scrub_plain:
  "list_all (\<lambda>c. \<not> high_surrogate c \<and> \<not> low_surrogate c) s \<Longrightarrow> scrub s = s"
  by (induction s rule: scrub.induct) simp_all

lemma scrub_examples:
  "scrub (js ''hello'') = js ''hello''" "scrub (js ''x'') = js ''x''"
  "scrub [0xD800] = [0xFFFD]"
  "scrub (js ''<script>alert(\"x\" + 'y' & 1)</script>'') =
     js ''<script>alert(\"x\" + 'y' & 1)</script>''"
  by (simp_all add: js_def high_surrogate_def low_surrogate_def)

section \<open>Escaping, one character at a time\<close>

lemma replacement_cases:
  "replacement c =
     (if c = 0x26 then js ''&amp;''
      else if c = 0x3C then js ''&lt;''
      else if c = 0x3E then js ''&gt;''
      else if c = 0x22 then js ''&quot;''
      else if c = 0x27 then js ''&#39;''
      else [c])"
  by (simp add: replacement_def html_special_def entity_table_def)

lemma replacement_no_markup:
  "x \<in> set (replacement c) \<Longrightarrow> x \<notin> {0x3C, 0x3E, 0x22, 0x27}"
  by (auto simp: replacement_cases js_def split: if_splits)

lemma escapeHtml_Cons: "escapeHtml (c # s) = replacement c @ escapeHtml s"
  by (simp add: escapeHtml_def)

lemma escapeHtml_no_markup: "set (escapeHtml s) \<inter> {0x3C, 0x3E, 0x22, 0x27} = {}"
  using replacement_no_markup by (fastforce simp: escapeHtml_def)

section \<open>The code's checks and the specification's validity\<close>

lemma denominator_1_iff: "snd (quotient_of q) = 1 \<longleftrightarrow> rat_of_int \<lfloor>q\<rfloor> = q"
proof
  assume d: "snd (quotient_of q) = 1"
  obtain a b where ab: "quotient_of q = (a, b)"
    by (cases "quotient_of q")
  with d have "q = rat_of_int a"
    using quotient_of_div [OF ab] by simp
  then show "rat_of_int \<lfloor>q\<rfloor> = q"
    by simp
next
  assume "rat_of_int \<lfloor>q\<rfloor> = q"
  then obtain n where "q = rat_of_int n"
    by metis
  then show "snd (quotient_of q) = 1"
    by (simp only: quotient_of_rat_of_int snd_conv)
qed

lemma content_rejected_iff: "content_rejected c \<longleftrightarrow> \<not> valid_content c"
  by (cases c) (auto simp: content_rejected_def valid_content_def trim_def)

lemma limit_rejected_iff: "limit_rejected v \<longleftrightarrow> \<not> valid_limit v"
  by (cases v) (auto simp: limit_rejected_def valid_limit_def denominator_1_iff)

section \<open>Creation, branch by branch\<close>

lemma post_rejected:
  "content_rejected (body_content rq) \<or> limit_rejected (body_ttl_seconds rq)
     \<or> limit_rejected (body_max_views rq) \<Longrightarrow>
   status (fst (post_api_pastes e rq r)) = 400 \<and> snd (post_api_pastes e rq r) = r"
  by (auto simp: post_api_pastes_def respond_def)

lemma post_2_rejected:
  "content_rejected (body_content rq) \<or> limit_rejected (body_ttl_seconds rq)
     \<or> limit_rejected (body_max_views rq) \<Longrightarrow>
   map_option status (fst (post_api_pastes_2 e rq r)) = Some 400 \<and> snd (post_api_pastes_2 e rq r) = r"
  by (auto simp: post_api_pastes_2_def respond_def)

lemma accepted_limit_field:
  assumes "\<not> limit_rejected v"
  shows "(v = JUndefined \<and> limit_field v = None) \<or>
         (\<exists>t. 1 \<le> t \<and> v = JNum (rat_of_int t) \<and> limit_field v = Some t \<and> truthy v)"
proof (cases v)
  case (JNum q)
  with assms have q: "rat_of_int \<lfloor>q\<rfloor> = q" "1 \<le> q"
    by (simp_all add: limit_rejected_def split: if_splits)
  then have "1 \<le> \<lfloor>q\<rfloor>"
    by linarith
  with q JNum show ?thesis
    by (auto simp: limit_field_def)
qed (use assms in \<open>simp_all add: limit_rejected_def limit_field_def\<close>)

text \<open>
  A request that passes the checks on a reachable store is stored, whatever \<open>EXPIRE\<close>
  answers; it is answered 201 when \<open>EXPIRE\<close> accepts the time to live.
\<close>

lemma post_stored:
  assumes "ready r" and "\<not> content_rejected (body_content rq)"
    and "\<not> limit_rejected (body_ttl_seconds rq)" and "\<not> limit_rejected (body_max_views rq)"
  shows "ready (snd (post_api_pastes e rq r))"
    and "hashes (snd (post_api_pastes e rq r)) =
      (hashes r)(key_of (take 8 (uuid e)) \<mapsto>
          \<lparr>content = scrub (trim (string_of (body_content rq))), created_at = clock e,
           ttl_seconds = limit_field (body_ttl_seconds rq),
           max_views = limit_field (body_max_views rq), views = 0\<rparr>)"
  using assms accepted_limit_field [OF assms(3)]
  by (auto simp: post_api_pastes_def Let_def hSet_def expire_def)

lemma post_created:
  assumes "ready r" and "\<not> content_rejected (body_content rq)"
    and "\<not> limit_rejected (body_ttl_seconds rq)" and "\<not> limit_rejected (body_max_views rq)"
    and "case limit_field (body_ttl_seconds rq) of None \<Rightarrow> True | Some t \<Rightarrow> expire_accepts r t"
  shows "post_api_pastes e rq r =
     (respond 201 (Json_created (take 8 (uuid e))
        (baseUrl (host rq) @ js ''/p/'' @ take 8 (uuid e))),
      r\<lparr>hashes := (hashes r)(key_of (take 8 (uuid e)) \<mapsto>
          \<lparr>content = scrub (trim (string_of (body_content rq))), created_at = clock e,
           ttl_seconds = limit_field (body_ttl_seconds rq),
           max_views = limit_field (body_max_views rq), views = 0\<rparr>),
        expires := (case limit_field (body_ttl_seconds rq) of
                      None \<Rightarrow> expires r
                    | Some t \<Rightarrow> (expires r)(key_of (take 8 (uuid e)) \<mapsto> t))\<rparr>)"
  using assms accepted_limit_field [OF assms(3)]
  by (auto simp: post_api_pastes_def Let_def hSet_def expire_def expire_accepts_def)

lemma post_expire_refused:
  assumes "ready r" and "\<not> content_rejected (body_content rq)"
    and "\<not> limit_rejected (body_ttl_seconds rq)" and "\<not> limit_rejected (body_max_views rq)"
    and "limit_field (body_ttl_seconds rq) = Some t" and "\<not> expire_accepts r t"
  shows "fst (post_api_pastes e rq r) = respond 500 (Json_error ''Internal server error'')"
  using assms accepted_limit_field [OF assms(3)]
  by (auto simp: post_api_pastes_def Let_def hSet_def expire_def expire_accepts_def)

lemma post_2_created:
  "ready r \<Longrightarrow> \<not> content_rejected (body_content rq) \<Longrightarrow>
   \<not> limit_rejected (body_ttl_seconds rq) \<Longrightarrow> \<not> limit_rejected (body_max_views rq) \<Longrightarrow>
   post_api_pastes_2 e rq r =
     (Some (respond 201 (Json_created (take 8 (uuid e))
        (js ''http://localhost:3000/p/'' @ take 8 (uuid e)))),
      r\<lparr>hashes := (hashes r)(key_of (take 8 (uuid e)) \<mapsto>
          \<lparr>content = scrub (trim (string_of (body_content rq))), created_at = clock e,
           ttl_seconds = limit_field (body_ttl_seconds rq),
           max_views = limit_field (body_max_views rq), views = 0\<rparr>)\<rparr>)"
  by (simp add: post_api_pastes_2_def Let_def hSet_def)


section \<open>Retrieval, branch by branch\<close>

lemma get_api_down:
  "\<not> ready r \<Longrightarrow>
   get_api_pastes_id e rq r = (respond 500 (Json_error ''Internal server error''), r)"
  by (simp add: get_api_pastes_id_def Let_def hGetAll_def)

lemma get_api_absent:
  "ready r \<Longrightarrow> hashes r (key_of (params_id rq)) = None \<Longrightarrow>
   get_api_pastes_id e rq r = (respond 404 (Json_error ''Paste not found''), r)"
  by (simp add: get_api_pastes_id_def Let_def hGetAll_def)

lemma get_api_no_content:
  "ready r \<Longrightarrow> hashes r (key_of (params_id rq)) = Some p \<Longrightarrow> content p = [] \<Longrightarrow>
   get_api_pastes_id e rq r = (respond 404 (Json_error ''Paste not found''), r)"
  by (simp add: get_api_pastes_id_def Let_def hGetAll_def)

lemma get_api_expired:
  "ready r \<Longrightarrow> hashes r (key_of (params_id rq)) = Some p \<Longrightarrow> content p \<noteq> [] \<Longrightarrow>
   ttl_reached (ttl_of p) (createdAt_of p) (now e rq) \<Longrightarrow>
   get_api_pastes_id e rq r =
     (respond 404 (Json_error ''Paste expired''),
      r\<lparr>hashes := (hashes r)(key_of (params_id rq) := None),
        expires := (expires r)(key_of (params_id rq) := None)\<rparr>)"
  by (simp add: get_api_pastes_id_def Let_def hGetAll_def del_def)

lemma get_api_exhausted:
  "ready r \<Longrightarrow> hashes r (key_of (params_id rq)) = Some p \<Longrightarrow> content p \<noteq> [] \<Longrightarrow>
   \<not> ttl_reached (ttl_of p) (createdAt_of p) (now e rq) \<Longrightarrow>
   limit_reached (maxViews_of p) (views_of p) \<Longrightarrow>
   get_api_pastes_id e rq r =
     (respond 404 (Json_error ''View limit exceeded''),
      r\<lparr>hashes := (hashes r)(key_of (params_id rq) := None),
        expires := (expires r)(key_of (params_id rq) := None)\<rparr>)"
  by (simp add: get_api_pastes_id_def Let_def hGetAll_def del_def)

lemma get_api_available:
  "ready r \<Longrightarrow> hashes r (key_of (params_id rq)) = Some p \<Longrightarrow> content p \<noteq> [] \<Longrightarrow>
   \<not> ttl_reached (ttl_of p) (createdAt_of p) (now e rq) \<Longrightarrow>
   \<not> limit_reached (maxViews_of p) (views_of p) \<Longrightarrow> can_count p \<Longrightarrow>
   expires_at (ttl_of p) (createdAt_of p) = Inr ex \<Longrightarrow>
   get_api_pastes_id e rq r =
     (respond 200 (Json_paste (content p) (remaining_views (maxViews_of p) (to_number (views p + 1))) ex),
      r\<lparr>hashes := (hashes r)(key_of (params_id rq) \<mapsto> p\<lparr>views := views p + 1\<rparr>)\<rparr>)"
  by (simp add: get_api_pastes_id_def Let_def hGetAll_def hIncrBy_views_def)

lemma get_api_range_error:
  "ready r \<Longrightarrow> hashes r (key_of (params_id rq)) = Some p \<Longrightarrow> content p \<noteq> [] \<Longrightarrow>
   \<not> ttl_reached (ttl_of p) (createdAt_of p) (now e rq) \<Longrightarrow>
   \<not> limit_reached (maxViews_of p) (views_of p) \<Longrightarrow> can_count p \<Longrightarrow>
   expires_at (ttl_of p) (createdAt_of p) = Inl x \<Longrightarrow>
   get_api_pastes_id e rq r =
     (respond 500 (Json_error ''Internal server error''),
      r\<lparr>hashes := (hashes r)(key_of (params_id rq) \<mapsto> p\<lparr>views := views p + 1\<rparr>)\<rparr>)"
  by (simp add: get_api_pastes_id_def Let_def hGetAll_def hIncrBy_views_def)

lemma get_p_down:
  "\<not> ready r \<Longrightarrow> get_p_id e rq r = (respond 500 (Html_error ''<h1>Server error</h1>''), r)"
  by (simp add: get_p_id_def Let_def hGetAll_def)

lemma get_p_absent:
  "ready r \<Longrightarrow> hashes r (key_of (params_id rq)) = None \<Longrightarrow>
   get_p_id e rq r = (respond 404 (Html_error ''<h1>404 - Paste not found</h1>''), r)"
  by (simp add: get_p_id_def Let_def hGetAll_def)

lemma get_p_no_content:
  "ready r \<Longrightarrow> hashes r (key_of (params_id rq)) = Some p \<Longrightarrow> content p = [] \<Longrightarrow>
   get_p_id e rq r = (respond 404 (Html_error ''<h1>404 - Paste not found</h1>''), r)"
  by (simp add: get_p_id_def Let_def hGetAll_def)

lemma get_p_expired:
  "ready r \<Longrightarrow> hashes r (key_of (params_id rq)) = Some p \<Longrightarrow> content p \<noteq> [] \<Longrightarrow>
   ttl_reached (ttl_of p) (createdAt_of p) (now e rq) \<Longrightarrow>
   get_p_id e rq r =
     (respond 404 (Html_error ''<h1>404 - Paste expired</h1>''),
      r\<lparr>hashes := (hashes r)(key_of (params_id rq) := None),
        expires := (expires r)(key_of (params_id rq) := None)\<rparr>)"
  by (simp add: get_p_id_def Let_def hGetAll_def del_def)

lemma get_p_exhausted:
  "ready r \<Longrightarrow> hashes r (key_of (params_id rq)) = Some p \<Longrightarrow> content p \<noteq> [] \<Longrightarrow>
   \<not> ttl_reached (ttl_of p) (createdAt_of p) (now e rq) \<Longrightarrow>
   limit_reached (maxViews_of p) (views_of p) \<Longrightarrow>
   get_p_id e rq r =
     (respond 404 (Html_error ''<h1>404 - View limit exceeded</h1>''),
      r\<lparr>hashes := (hashes r)(key_of (params_id rq) := None),
        expires := (expires r)(key_of (params_id rq) := None)\<rparr>)"
  by (simp add: get_p_id_def Let_def hGetAll_def del_def)

lemma get_p_available:
  "ready r \<Longrightarrow> hashes r (key_of (params_id rq)) = Some p \<Longrightarrow> content p \<noteq> [] \<Longrightarrow>
   \<not> ttl_reached (ttl_of p) (createdAt_of p) (now e rq) \<Longrightarrow>
   \<not> limit_reached (maxViews_of p) (views_of p) \<Longrightarrow> can_count p \<Longrightarrow>
   get_p_id e rq r =
     (respond 200
        (Html_paste (params_id rq) (escapeHtml (content p)) (to_number (views p + 1))
           (shown_limit (maxViews_of p)) (expires_text (ttl_of p) (createdAt_of p))),
      r\<lparr>hashes := (hashes r)(key_of (params_id rq) \<mapsto> p\<lparr>views := views p + 1\<rparr>)\<rparr>)"
  by (simp add: get_p_id_def Let_def hGetAll_def hIncrBy_views_def)

lemma get_api_2_down: "\<not> ready r \<Longrightarrow> get_api_pastes_id_2 e rq r = (None, r)"
  by (simp add: get_api_pastes_id_2_def Let_def hGetAll_def)

lemma get_api_2_absent:
  "ready r \<Longrightarrow> hashes r (key_of (params_id rq)) = None \<Longrightarrow>
   get_api_pastes_id_2 e rq r = (Some (respond 404 (Json_error ''Not found'')), r)"
  by (simp add: get_api_pastes_id_2_def Let_def hGetAll_def)

lemma get_api_2_no_content:
  "ready r \<Longrightarrow> hashes r (key_of (params_id rq)) = Some p \<Longrightarrow> content p = [] \<Longrightarrow>
   get_api_pastes_id_2 e rq r = (Some (respond 404 (Json_error ''Not found'')), r)"
  by (simp add: get_api_pastes_id_2_def Let_def hGetAll_def)

lemma get_api_2_expired:
  "ready r \<Longrightarrow> hashes r (key_of (params_id rq)) = Some p \<Longrightarrow> content p \<noteq> [] \<Longrightarrow>
   ttl_reached (ttl_of p) (createdAt_of p) (now e rq) \<Longrightarrow>
   get_api_pastes_id_2 e rq r = (Some (respond 404 (Json_error ''Expired'')), r)"
  by (simp add: get_api_pastes_id_2_def Let_def hGetAll_def)

lemma get_api_2_exhausted:
  "ready r \<Longrightarrow> hashes r (key_of (params_id rq)) = Some p \<Longrightarrow> content p \<noteq> [] \<Longrightarrow>
   \<not> ttl_reached (ttl_of p) (createdAt_of p) (now e rq) \<Longrightarrow>
   limit_reached (maxViews_of p) (views_of p) \<Longrightarrow>
   get_api_pastes_id_2 e rq r = (Some (respond 404 (Json_error ''View limit exceeded'')), r)"
  by (simp add: get_api_pastes_id_2_def Let_def hGetAll_def)

lemma get_api_2_available:
  "ready r \<Longrightarrow> hashes r (key_of (params_id rq)) = Some p \<Longrightarrow> content p \<noteq> [] \<Longrightarrow>
   \<not> ttl_reached (ttl_of p) (createdAt_of p) (now e rq) \<Longrightarrow>
   \<not> limit_reached (maxViews_of p) (views_of p) \<Longrightarrow> can_count p \<Longrightarrow>
   expires_at (ttl_of p) (createdAt_of p) = Inr ex \<Longrightarrow>
   get_api_pastes_id_2 e rq r =
     (Some (respond 200
        (Json_paste (content p) (remaining_views (maxViews_of p) (to_number (views p + 1))) ex)),
      r\<lparr>hashes := (hashes r)(key_of (params_id rq) \<mapsto> p\<lparr>views := views p + 1\<rparr>)\<rparr>)"
  by (simp add: get_api_pastes_id_2_def Let_def hGetAll_def hIncrBy_views_def)

lemma get_api_2_range_error:
  "ready r \<Longrightarrow> hashes r (key_of (params_id rq)) = Some p \<Longrightarrow> content p \<noteq> [] \<Longrightarrow>
   \<not> ttl_reached (ttl_of p) (createdAt_of p) (now e rq) \<Longrightarrow>
   \<not> limit_reached (maxViews_of p) (views_of p) \<Longrightarrow> can_count p \<Longrightarrow>
   expires_at (ttl_of p) (createdAt_of p) = Inl x \<Longrightarrow>
   get_api_pastes_id_2 e rq r =
     (None, r\<lparr>hashes := (hashes r)(key_of (params_id rq) \<mapsto> p\<lparr>views := views p + 1\<rparr>)\<rparr>)"
  by (simp add: get_api_pastes_id_2_def Let_def hGetAll_def hIncrBy_views_def)

lemma get_p_2_down: "\<not> ready r \<Longrightarrow> get_p_id_2 e rq r = (None, r)"
  by (simp add: get_p_id_2_def Let_def hGetAll_def)

lemma get_p_2_absent:
  "ready r \<Longrightarrow> hashes r (key_of (params_id rq)) = None \<Longrightarrow>
   get_p_id_2 e rq r = (Some (respond 404 (Html_error ''<h1>404 - Paste not found</h1>'')), r)"
  by (simp add: get_p_id_2_def Let_def hGetAll_def)

lemma get_p_2_no_content:
  "ready r \<Longrightarrow> hashes r (key_of (params_id rq)) = Some p \<Longrightarrow> content p = [] \<Longrightarrow>
   get_p_id_2 e rq r = (Some (respond 404 (Html_error ''<h1>404 - Paste not found</h1>'')), r)"
  by (simp add: get_p_id_2_def Let_def hGetAll_def)

lemma get_p_2_expired:
  "ready r \<Longrightarrow> hashes r (key_of (params_id rq)) = Some p \<Longrightarrow> content p \<noteq> [] \<Longrightarrow>
   ttl_reached (ttl_of p) (createdAt_of p) (now e rq) \<Longrightarrow>
   get_p_id_2 e rq r = (Some (respond 404 (Html_error ''<h1>Expired</h1>'')), r)"
  by (simp add: get_p_id_2_def Let_def hGetAll_def)

lemma get_p_2_exhausted:
  "ready r \<Longrightarrow> hashes r (key_of (params_id rq)) = Some p \<Longrightarrow> content p \<noteq> [] \<Longrightarrow>
   \<not> ttl_reached (ttl_of p) (createdAt_of p) (now e rq) \<Longrightarrow>
   limit_reached (maxViews_of p) (views_of p) \<Longrightarrow>
   get_p_id_2 e rq r = (Some (respond 404 (Html_error ''<h1>View limit exceeded</h1>'')), r)"
  by (simp add: get_p_id_2_def Let_def hGetAll_def)

lemma get_p_2_available:
  "ready r \<Longrightarrow> hashes r (key_of (params_id rq)) = Some p \<Longrightarrow> content p \<noteq> [] \<Longrightarrow>
   \<not> ttl_reached (ttl_of p) (createdAt_of p) (now e rq) \<Longrightarrow>
   \<not> limit_reached (maxViews_of p) (views_of p) \<Longrightarrow> can_count p \<Longrightarrow>
   get_p_id_2 e rq r =
     (Some (respond 200
        (Html_paste_short (escapeHtml (content p)) (to_number (views p + 1)) (shown_limit (maxViews_of p)))),
      r\<lparr>hashes := (hashes r)(key_of (params_id rq) \<mapsto> p\<lparr>views := views p + 1\<rparr>)\<rparr>)"
  by (simp add: get_p_id_2_def Let_def hGetAll_def hIncrBy_views_def)


text \<open>The counter cannot take the increment: \<open>hIncrBy\<close> rejects and nothing is written.\<close>

lemma get_api_overflow:
  "ready r \<Longrightarrow> hashes r (key_of (params_id rq)) = Some p \<Longrightarrow> content p \<noteq> [] \<Longrightarrow>
   \<not> ttl_reached (ttl_of p) (createdAt_of p) (now e rq) \<Longrightarrow>
   \<not> limit_reached (maxViews_of p) (views_of p) \<Longrightarrow> \<not> can_count p \<Longrightarrow>
   get_api_pastes_id e rq r = (respond 500 (Json_error ''Internal server error''), r)"
  by (simp add: get_api_pastes_id_def Let_def hGetAll_def hIncrBy_views_def)

lemma get_p_overflow:
  "ready r \<Longrightarrow> hashes r (key_of (params_id rq)) = Some p \<Longrightarrow> content p \<noteq> [] \<Longrightarrow>
   \<not> ttl_reached (ttl_of p) (createdAt_of p) (now e rq) \<Longrightarrow>
   \<not> limit_reached (maxViews_of p) (views_of p) \<Longrightarrow> \<not> can_count p \<Longrightarrow>
   get_p_id e rq r = (respond 500 (Html_error ''<h1>Server error</h1>''), r)"
  by (simp add: get_p_id_def Let_def hGetAll_def hIncrBy_views_def)

lemma get_api_2_overflow:
  "ready r \<Longrightarrow> hashes r (key_of (params_id rq)) = Some p \<Longrightarrow> content p \<noteq> [] \<Longrightarrow>
   \<not> ttl_reached (ttl_of p) (createdAt_of p) (now e rq) \<Longrightarrow>
   \<not> limit_reached (maxViews_of p) (views_of p) \<Longrightarrow> \<not> can_count p \<Longrightarrow>
   get_api_pastes_id_2 e rq r = (None, r)"
  by (simp add: get_api_pastes_id_2_def Let_def hGetAll_def hIncrBy_views_def)

lemma get_p_2_overflow:
  "ready r \<Longrightarrow> hashes r (key_of (params_id rq)) = Some p \<Longrightarrow> content p \<noteq> [] \<Longrightarrow>
   \<not> ttl_reached (ttl_of p) (createdAt_of p) (now e rq) \<Longrightarrow>
   \<not> limit_reached (maxViews_of p) (views_of p) \<Longrightarrow> \<not> can_count p \<Longrightarrow>
   get_p_id_2 e rq r = (None, r)"
  by (simp add: get_p_id_2_def Let_def hGetAll_def hIncrBy_views_def)

lemmas get_api_branches = get_api_down get_api_absent get_api_no_content get_api_expired
  get_api_exhausted get_api_overflow

lemmas get_p_branches = get_p_down get_p_absent get_p_no_content get_p_expired
  get_p_exhausted get_p_overflow get_p_available

lemmas get_api_2_branches = get_api_2_down get_api_2_absent get_api_2_no_content
  get_api_2_expired get_api_2_exhausted get_api_2_overflow

lemmas get_p_2_branches = get_p_2_down get_p_2_absent get_p_2_no_content get_p_2_expired
  get_p_2_exhausted get_p_2_overflow get_p_2_available

lemma retrieval_cases
  [case_names down absent no_content expired exhausted overflow available]:
  obtains "\<not> ready r"
  | "ready r" and "hashes r k = None"
  | p where "ready r" and "hashes r k = Some p" and "content p = []"
  | p where "ready r" and "hashes r k = Some p" and "content p \<noteq> []"
      and "ttl_reached (ttl_of p) (createdAt_of p) t"
  | p where "ready r" and "hashes r k = Some p" and "content p \<noteq> []"
      and "\<not> ttl_reached (ttl_of p) (createdAt_of p) t"
      and "limit_reached (maxViews_of p) (views_of p)"
  | p where "ready r" and "hashes r k = Some p" and "content p \<noteq> []"
      and "\<not> ttl_reached (ttl_of p) (createdAt_of p) t"
      and "\<not> limit_reached (maxViews_of p) (views_of p)" and "\<not> can_count p"
  | p where "ready r" and "hashes r k = Some p" and "content p \<noteq> []"
      and "\<not> ttl_reached (ttl_of p) (createdAt_of p) t"
      and "\<not> limit_reached (maxViews_of p) (views_of p)" and "can_count p"
  by (cases "hashes r k") blast+

lemma expires_at_cases:
  obtains "expires_at ttl c = Inl RangeError" | ex where "expires_at ttl c = Inr ex"
  by (cases "expires_at ttl c")
     (auto simp: expires_at_def toISOString_def split: option.splits if_splits)

section \<open>Rejected creation requests\<close>

lemma not_integer_example: "snd (quotient_of (3 / 2)) \<noteq> 1"
  by code_simp

lemma blank_example: "trim (js '' '' @ [0x0A, 0x09, 0xA0]) = []"
  by (simp add: trim_def js_def is_white_space_def)

text \<open>
  Claim C4. A creation request that the specification calls invalid (the content is
  missing, not a string, empty or only white space; or \<open>ttl_seconds\<close> or \<open>max_views\<close>
  is given and is not an integer \<open>\<ge> 1\<close>) is answered with status 400 and leaves the
  store exactly as it was, whatever the store and the environment: the checks come
  before the first Redis command. This holds for the handler of both server files.
\<close>

theorem invalid_input_rejected:
  assumes "invalid_input rq"
  shows "status (fst (post_api_pastes e rq r)) = 400 \<and> snd (post_api_pastes e rq r) = r \<and>
         map_option status (fst (post_api_pastes_2 e rq r)) = Some 400 \<and>
         snd (post_api_pastes_2 e rq r) = r"
proof -
  from assms have "content_rejected (body_content rq) \<or> limit_rejected (body_ttl_seconds rq)
      \<or> limit_rejected (body_max_views rq)"
    by (simp add: invalid_input_def content_rejected_iff limit_rejected_iff)
  then show ?thesis
    using post_rejected [of rq e r] post_2_rejected [of rq e r] by simp
qed

theorem invalid_input_rejected_witness:
  "(invalid_input (request (JStr (js '' '' @ [0x0A, 0x09, 0xA0])) JUndefined JUndefined) \<and>
    status (fst (post_api_pastes (env_at 5) (request (JStr (js '' '' @ [0x0A, 0x09, 0xA0])) JUndefined JUndefined) empty_store)) = 400 \<and>
    snd (post_api_pastes (env_at 5) (request (JStr (js '' '' @ [0x0A, 0x09, 0xA0])) JUndefined JUndefined) empty_store) = empty_store) \<and>
   (invalid_input (request (JStr (js ''hello'')) (JNum (3 / 2)) JUndefined) \<and>
    status (fst (post_api_pastes (env_at 5) (request (JStr (js ''hello'')) (JNum (3 / 2)) JUndefined) empty_store)) = 400 \<and>
    snd (post_api_pastes (env_at 5) (request (JStr (js ''hello'')) (JNum (3 / 2)) JUndefined) empty_store) = empty_store) \<and>
   (invalid_input (request (JStr (js ''hello'')) (JNum 0) JUndefined) \<and>
    status (fst (post_api_pastes (env_at 5) (request (JStr (js ''hello'')) (JNum 0) JUndefined) empty_store)) = 400) \<and>
   (invalid_input (request (JStr (js ''hello'')) (JNum (- 1)) JUndefined) \<and>
    status (fst (post_api_pastes (env_at 5) (request (JStr (js ''hello'')) (JNum (- 1)) JUndefined) empty_store)) = 400) \<and>
   (invalid_input (request (JStr (js ''hello'')) JUndefined (JNum 0)) \<and>
    status (fst (post_api_pastes (env_at 5) (request (JStr (js ''hello'')) JUndefined (JNum 0)) empty_store)) = 400) \<and>
   (invalid_input (request JUndefined JUndefined JUndefined) \<and>
    status (fst (post_api_pastes (env_at 5) (request JUndefined JUndefined JUndefined) empty_store)) = 400) \<and>
   (invalid_input (request (JStr []) JUndefined JUndefined) \<and>
    status (fst (post_api_pastes (env_at 5) (request (JStr []) JUndefined JUndefined) empty_store)) = 400)"
proof -
  have 1: "invalid_input (request (JStr (js '' '' @ [0x0A, 0x09, 0xA0])) JUndefined JUndefined)"
    by (simp add: invalid_input_def request_def valid_content_def blank_example)
  have 2: "invalid_input (request (JStr (js ''hello'')) (JNum (3 / 2)) JUndefined)"
    by (simp add: invalid_input_def request_def valid_limit_def not_integer_example)
  have 3: "invalid_input (request (JStr (js ''hello'')) (JNum 0) JUndefined)"
    by (simp add: invalid_input_def request_def valid_limit_def)
  have 4: "invalid_input (request (JStr (js ''hello'')) (JNum (- 1)) JUndefined)"
    by (simp add: invalid_input_def request_def valid_limit_def)
  have 5: "invalid_input (request (JStr (js ''hello'')) JUndefined (JNum 0))"
    by (simp add: invalid_input_def request_def valid_limit_def)
  have 6: "invalid_input (request JUndefined JUndefined JUndefined)"
    by (simp add: invalid_input_def request_def valid_content_def)
  have 7: "invalid_input (request (JStr []) JUndefined JUndefined)"
    by (simp add: invalid_input_def request_def valid_content_def trim_def)
  show ?thesis
    using 1 2 3 4 5 6 7
      invalid_input_rejected [OF 1, of "env_at 5" empty_store]
      invalid_input_rejected [OF 2, of "env_at 5" empty_store]
      invalid_input_rejected [OF 3, of "env_at 5" empty_store]
      invalid_input_rejected [OF 4, of "env_at 5" empty_store]
      invalid_input_rejected [OF 5, of "env_at 5" empty_store]
      invalid_input_rejected [OF 6, of "env_at 5" empty_store]
      invalid_input_rejected [OF 7, of "env_at 5" empty_store]
    by blast
qed

section \<open>Escaped content in the HTML page\<close>

lemma get_p_id_200:
  assumes "status (fst (get_p_id e rq r)) = 200"
  shows "\<exists>p. hashes r (key_of (params_id rq)) = Some p \<and>
           body (fst (get_p_id e rq r)) =
             Html_paste (params_id rq) (escapeHtml (content p)) (to_number (views p + 1))
               (shown_limit (maxViews_of p)) (expires_text (ttl_of p) (createdAt_of p))"
proof (rule retrieval_cases [where r = r and k = "key_of (params_id rq)" and t = "now e rq"])
qed (use assms in \<open>simp_all add: get_p_branches respond_def\<close>)

lemma get_p_id_2_200:
  assumes "map_option status (fst (get_p_id_2 e rq r)) = Some 200"
  shows "\<exists>p. hashes r (key_of (params_id rq)) = Some p \<and>
           map_option body (fst (get_p_id_2 e rq r)) =
             Some (Html_paste_short (escapeHtml (content p)) (to_number (views p + 1))
               (shown_limit (maxViews_of p)))"
proof (rule retrieval_cases [where r = r and k = "key_of (params_id rq)" and t = "now e rq"])
qed (use assms in \<open>simp_all add: get_p_2_branches respond_def\<close>)

lemma script_example:
  "escapeHtml (js ''<script>alert(\"x\" + 'y' & 1)</script>'') =
     js ''&lt;script&gt;alert(&quot;x&quot; + &#39;y&#39; &amp; 1)&lt;/script&gt;''"
  by (simp add: escapeHtml_def replacement_cases js_def)

text \<open>
  Claim C9. \<open>escapeHtml\<close> goes through the string one character at a time: each of
  \<open>&\<close>, \<open><\<close>, \<open>>\<close>, \<open>"\<close> and \<open>'\<close> is replaced by its entity and every other
  character is kept; so none of \<open><\<close>, \<open>>\<close>, \<open>"\<close> and \<open>'\<close> occurs in the result.
  Whenever the HTML route answers 200, the \<open>pre\<close> element of the page holds
  \<open>escapeHtml\<close> of the stored content, in both server files.
\<close>

theorem html_content_escaped:
  "(\<forall>c s. escapeHtml (c # s) =
        (if c = 0x26 then js ''&amp;''
         else if c = 0x3C then js ''&lt;''
         else if c = 0x3E then js ''&gt;''
         else if c = 0x22 then js ''&quot;''
         else if c = 0x27 then js ''&#39;''
         else [c]) @ escapeHtml s) \<and>
   escapeHtml [] = [] \<and>
   (\<forall>s. set (escapeHtml s) \<inter> {0x3C, 0x3E, 0x22, 0x27} = {}) \<and>
   (\<forall>e rq r. status (fst (get_p_id e rq r)) = 200 \<longrightarrow>
      (\<exists>p n m x. hashes r (key_of (params_id rq)) = Some p \<and>
         body (fst (get_p_id e rq r)) =
           Html_paste (params_id rq) (escapeHtml (content p)) n m x)) \<and>
   (\<forall>e rq r. map_option status (fst (get_p_id_2 e rq r)) = Some 200 \<longrightarrow>
      (\<exists>p n m. hashes r (key_of (params_id rq)) = Some p \<and>
         map_option body (fst (get_p_id_2 e rq r)) =
           Some (Html_paste_short (escapeHtml (content p)) n m)))"
proof (intro conjI allI impI)
  fix c s
  show "escapeHtml (c # s) =
        (if c = 0x26 then js ''&amp;''
         else if c = 0x3C then js ''&lt;''
         else if c = 0x3E then js ''&gt;''
         else if c = 0x22 then js ''&quot;''
         else if c = 0x27 then js ''&#39;''
         else [c]) @ escapeHtml s"
    by (simp only: escapeHtml_Cons replacement_cases)
next
  show "escapeHtml [] = []"
    by (simp add: escapeHtml_def)
next
  fix s
  show "set (escapeHtml s) \<inter> {0x3C, 0x3E, 0x22, 0x27} = {}"
    by (rule escapeHtml_no_markup)
next
  fix e rq r
  assume "status (fst (get_p_id e rq r)) = 200"
  from get_p_id_200 [OF this]
  show "\<exists>p n m x. hashes r (key_of (params_id rq)) = Some p \<and>
         body (fst (get_p_id e rq r)) =
           Html_paste (params_id rq) (escapeHtml (content p)) n m x"
    by blast
next
  fix e rq r
  assume "map_option status (fst (get_p_id_2 e rq r)) = Some 200"
  from get_p_id_2_200 [OF this]
  show "\<exists>p n m. hashes r (key_of (params_id rq)) = Some p \<and>
         map_option body (fst (get_p_id_2 e rq r)) =
           Some (Html_paste_short (escapeHtml (content p)) n m)"
    by blast
qed

theorem html_content_escaped_witness:
  "status (fst (get_p_id (env_at 7) (fetch (js ''3f2a9c1e''))
      (store_with (js ''3f2a9c1e'')
         \<lparr>content = js ''<script>alert(\"x\" + 'y' & 1)</script>'', created_at = 0,
          ttl_seconds = None, max_views = None, views = 0\<rparr>))) = 200 \<and>
   (\<exists>n m x. body (fst (get_p_id (env_at 7) (fetch (js ''3f2a9c1e''))
      (store_with (js ''3f2a9c1e'')
         \<lparr>content = js ''<script>alert(\"x\" + 'y' & 1)</script>'', created_at = 0,
          ttl_seconds = None, max_views = None, views = 0\<rparr>))) =
      Html_paste (js ''3f2a9c1e'')
        (js ''&lt;script&gt;alert(&quot;x&quot; + &#39;y&#39; &amp; 1)&lt;/script&gt;'') n m x)"
proof -
  let ?p = "\<lparr>content = js ''<script>alert(\"x\" + 'y' & 1)</script>'', created_at = 0,
          ttl_seconds = None, max_views = None, views = 0\<rparr>"
  let ?r = "store_with (js ''3f2a9c1e'') ?p"
  let ?resp = "fst (get_p_id (env_at 7) (fetch (js ''3f2a9c1e'')) ?r)"
  have k: "hashes ?r (key_of (params_id (fetch (js ''3f2a9c1e'')))) = Some ?p"
    by (simp add: store_with_def fetch_def)
  have nonempty: "content ?p \<noteq> []"
    by (simp add: js_def)
  have ok: "status ?resp = 200"
    using get_p_available [of ?r "fetch (js ''3f2a9c1e'')" ?p "env_at 7"] k nonempty
    by (simp add: store_with_def ttl_reached_def limit_reached_def respond_def ttl_of_def
        maxViews_of_def can_count_def int64_def)
  from html_content_escaped have
    "\<exists>p n m x. hashes ?r (key_of (params_id (fetch (js ''3f2a9c1e'')))) = Some p \<and>
       body ?resp = Html_paste (params_id (fetch (js ''3f2a9c1e''))) (escapeHtml (content p)) n m x"
    using ok by blast
  with k have "\<exists>n m x. body ?resp =
      Html_paste (params_id (fetch (js ''3f2a9c1e''))) (escapeHtml (content ?p)) n m x"
    by (metis option.inject)
  then have "\<exists>n m x. body ?resp =
      Html_paste (js ''3f2a9c1e'')
        (js ''&lt;script&gt;alert(&quot;x&quot; + &#39;y&#39; &amp; 1)&lt;/script&gt;'') n m x"
    by (simp add: fetch_def script_example)
  with ok show ?thesis by blast
qed

section \<open>What a retrieval does to the store\<close>

lemmas concrete_reads = ttl_of_def createdAt_of_def maxViews_of_def views_of_def now_def
  to_number_safe ttl_reached_def limit_reached_def can_count_def int64_def

lemma get_api_effect:
  "retrieval_effect (key_of (params_id rq)) (now e rq) r (snd (get_api_pastes_id e rq r))"
proof (rule retrieval_cases [where r = r and k = "key_of (params_id rq)" and t = "now e rq"])
  fix p
  assume a: "ready r" "hashes r (key_of (params_id rq)) = Some p" "content p \<noteq> []"
    "\<not> ttl_reached (ttl_of p) (createdAt_of p) (now e rq)"
    "\<not> limit_reached (maxViews_of p) (views_of p)" "can_count p"
  show ?thesis
    by (rule expires_at_cases [of "ttl_of p" "createdAt_of p"])
       (simp_all add: a get_api_available get_api_range_error retrieval_effect_def viewed_once_def)
qed (simp_all add: get_api_branches retrieval_effect_def)

lemma get_api_200:
  assumes "status (fst (get_api_pastes_id e rq r)) = 200"
  shows "viewed_once (now e rq) (hashes r (key_of (params_id rq)))
           (hashes (snd (get_api_pastes_id e rq r)) (key_of (params_id rq)))"
proof (rule retrieval_cases [where r = r and k = "key_of (params_id rq)" and t = "now e rq"])
  fix p
  assume a: "ready r" "hashes r (key_of (params_id rq)) = Some p" "content p \<noteq> []"
    "\<not> ttl_reached (ttl_of p) (createdAt_of p) (now e rq)"
    "\<not> limit_reached (maxViews_of p) (views_of p)" "can_count p"
  show ?thesis
    by (rule expires_at_cases [of "ttl_of p" "createdAt_of p"])
       (use assms in \<open>simp_all add: a get_api_available get_api_range_error viewed_once_def respond_def\<close>)
qed (use assms in \<open>simp_all add: get_api_branches respond_def\<close>)

lemma get_api_404:
  assumes "status (fst (get_api_pastes_id e rq r)) = 404"
  shows "nothing_written r (snd (get_api_pastes_id e rq r))"
proof (rule retrieval_cases [where r = r and k = "key_of (params_id rq)" and t = "now e rq"])
  fix p
  assume a: "ready r" "hashes r (key_of (params_id rq)) = Some p" "content p \<noteq> []"
    "\<not> ttl_reached (ttl_of p) (createdAt_of p) (now e rq)"
    "\<not> limit_reached (maxViews_of p) (views_of p)" "can_count p"
  show ?thesis
    by (rule expires_at_cases [of "ttl_of p" "createdAt_of p"])
       (use assms in \<open>simp_all add: a get_api_available get_api_range_error respond_def\<close>)
qed (use assms in \<open>simp_all add: get_api_branches respond_def nothing_written_def\<close>)

lemma get_p_effect:
  "retrieval_effect (key_of (params_id rq)) (now e rq) r (snd (get_p_id e rq r))"
proof (rule retrieval_cases [where r = r and k = "key_of (params_id rq)" and t = "now e rq"])
qed (simp_all add: get_p_branches retrieval_effect_def viewed_once_def)

lemma get_p_200:
  assumes "status (fst (get_p_id e rq r)) = 200"
  shows "viewed_once (now e rq) (hashes r (key_of (params_id rq)))
           (hashes (snd (get_p_id e rq r)) (key_of (params_id rq)))"
proof (rule retrieval_cases [where r = r and k = "key_of (params_id rq)" and t = "now e rq"])
qed (use assms in \<open>simp_all add: get_p_branches viewed_once_def respond_def\<close>)

lemma get_p_404:
  assumes "status (fst (get_p_id e rq r)) = 404"
  shows "nothing_written r (snd (get_p_id e rq r))"
proof (rule retrieval_cases [where r = r and k = "key_of (params_id rq)" and t = "now e rq"])
qed (use assms in \<open>simp_all add: get_p_branches respond_def nothing_written_def\<close>)

lemma get_api_2_effect:
  "retrieval_effect (key_of (params_id rq)) (now e rq) r (snd (get_api_pastes_id_2 e rq r))"
proof (rule retrieval_cases [where r = r and k = "key_of (params_id rq)" and t = "now e rq"])
  fix p
  assume a: "ready r" "hashes r (key_of (params_id rq)) = Some p" "content p \<noteq> []"
    "\<not> ttl_reached (ttl_of p) (createdAt_of p) (now e rq)"
    "\<not> limit_reached (maxViews_of p) (views_of p)" "can_count p"
  show ?thesis
    by (rule expires_at_cases [of "ttl_of p" "createdAt_of p"])
       (simp_all add: a get_api_2_available get_api_2_range_error retrieval_effect_def viewed_once_def)
qed (simp_all add: get_api_2_branches retrieval_effect_def)

lemma get_api_2_200:
  assumes "map_option status (fst (get_api_pastes_id_2 e rq r)) = Some 200"
  shows "viewed_once (now e rq) (hashes r (key_of (params_id rq)))
           (hashes (snd (get_api_pastes_id_2 e rq r)) (key_of (params_id rq)))"
proof (rule retrieval_cases [where r = r and k = "key_of (params_id rq)" and t = "now e rq"])
  fix p
  assume a: "ready r" "hashes r (key_of (params_id rq)) = Some p" "content p \<noteq> []"
    "\<not> ttl_reached (ttl_of p) (createdAt_of p) (now e rq)"
    "\<not> limit_reached (maxViews_of p) (views_of p)" "can_count p"
  show ?thesis
    by (rule expires_at_cases [of "ttl_of p" "createdAt_of p"])
       (use assms in \<open>simp_all add: a get_api_2_available get_api_2_range_error viewed_once_def respond_def\<close>)
qed (use assms in \<open>simp_all add: get_api_2_branches respond_def\<close>)

lemma get_api_2_404:
  assumes "map_option status (fst (get_api_pastes_id_2 e rq r)) = Some 404"
  shows "snd (get_api_pastes_id_2 e rq r) = r"
proof (rule retrieval_cases [where r = r and k = "key_of (params_id rq)" and t = "now e rq"])
  fix p
  assume a: "ready r" "hashes r (key_of (params_id rq)) = Some p" "content p \<noteq> []"
    "\<not> ttl_reached (ttl_of p) (createdAt_of p) (now e rq)"
    "\<not> limit_reached (maxViews_of p) (views_of p)" "can_count p"
  show ?thesis
    by (rule expires_at_cases [of "ttl_of p" "createdAt_of p"])
       (use assms in \<open>simp_all add: a get_api_2_available get_api_2_range_error respond_def\<close>)
qed (use assms in \<open>simp_all add: get_api_2_branches respond_def\<close>)

lemma get_p_2_effect:
  "retrieval_effect (key_of (params_id rq)) (now e rq) r (snd (get_p_id_2 e rq r))"
proof (rule retrieval_cases [where r = r and k = "key_of (params_id rq)" and t = "now e rq"])
qed (simp_all add: get_p_2_branches retrieval_effect_def viewed_once_def)

lemma get_p_2_200:
  assumes "map_option status (fst (get_p_id_2 e rq r)) = Some 200"
  shows "viewed_once (now e rq) (hashes r (key_of (params_id rq)))
           (hashes (snd (get_p_id_2 e rq r)) (key_of (params_id rq)))"
proof (rule retrieval_cases [where r = r and k = "key_of (params_id rq)" and t = "now e rq"])
qed (use assms in \<open>simp_all add: get_p_2_branches viewed_once_def respond_def\<close>)

lemma get_p_2_404:
  assumes "map_option status (fst (get_p_id_2 e rq r)) = Some 404"
  shows "snd (get_p_id_2 e rq r) = r"
proof (rule retrieval_cases [where r = r and k = "key_of (params_id rq)" and t = "now e rq"])
qed (use assms in \<open>simp_all add: get_p_2_branches respond_def\<close>)

lemma post_other_keys:
  "k' \<noteq> key_of (take 8 (uuid e)) \<Longrightarrow> hashes (snd (post_api_pastes e rq r)) k' = hashes r k'"
  by (auto simp: post_api_pastes_def Let_def hSet_def expire_def split: option.splits)

lemma post_2_other_keys:
  "k' \<noteq> key_of (take 8 (uuid e)) \<Longrightarrow> hashes (snd (post_api_pastes_2 e rq r)) k' = hashes r k'"
  by (auto simp: post_api_pastes_2_def Let_def hSet_def split: option.splits)

text \<open>
  What holds of every retrieval, in each of the four handlers: every key holds after
  the retrieval what it held before, except that the requested key may have been
  deleted or may hold its former hash with \<open>views\<close> one higher, and the latter only
  when the retrieval itself found the hash available. An answer of 200 comes with that
  one increment, an answer of 404 with no hash written. Creation writes under the new
  id only.
\<close>

lemma views_written_only_when_available:
  "(retrieval_effect (key_of (params_id rq)) (now e rq) r (snd (get_api_pastes_id e rq r)) \<and>
    (status (fst (get_api_pastes_id e rq r)) = 200 \<longrightarrow>
       viewed_once (now e rq) (hashes r (key_of (params_id rq)))
         (hashes (snd (get_api_pastes_id e rq r)) (key_of (params_id rq)))) \<and>
    (status (fst (get_api_pastes_id e rq r)) = 404 \<longrightarrow>
       nothing_written r (snd (get_api_pastes_id e rq r)))) \<and>
   (retrieval_effect (key_of (params_id rq)) (now e rq) r (snd (get_p_id e rq r)) \<and>
    (status (fst (get_p_id e rq r)) = 200 \<longrightarrow>
       viewed_once (now e rq) (hashes r (key_of (params_id rq)))
         (hashes (snd (get_p_id e rq r)) (key_of (params_id rq)))) \<and>
    (status (fst (get_p_id e rq r)) = 404 \<longrightarrow>
       nothing_written r (snd (get_p_id e rq r)))) \<and>
   (retrieval_effect (key_of (params_id rq)) (now e rq) r (snd (get_api_pastes_id_2 e rq r)) \<and>
    (map_option status (fst (get_api_pastes_id_2 e rq r)) = Some 200 \<longrightarrow>
       viewed_once (now e rq) (hashes r (key_of (params_id rq)))
         (hashes (snd (get_api_pastes_id_2 e rq r)) (key_of (params_id rq)))) \<and>
    (map_option status (fst (get_api_pastes_id_2 e rq r)) = Some 404 \<longrightarrow>
       snd (get_api_pastes_id_2 e rq r) = r)) \<and>
   (retrieval_effect (key_of (params_id rq)) (now e rq) r (snd (get_p_id_2 e rq r)) \<and>
    (map_option status (fst (get_p_id_2 e rq r)) = Some 200 \<longrightarrow>
       viewed_once (now e rq) (hashes r (key_of (params_id rq)))
         (hashes (snd (get_p_id_2 e rq r)) (key_of (params_id rq)))) \<and>
    (map_option status (fst (get_p_id_2 e rq r)) = Some 404 \<longrightarrow>
       snd (get_p_id_2 e rq r) = r)) \<and>
   (\<forall>k'. k' \<noteq> key_of (take 8 (uuid e)) \<longrightarrow>
      hashes (snd (post_api_pastes e prq r)) k' = hashes r k' \<and>
      hashes (snd (post_api_pastes_2 e prq r)) k' = hashes r k')"
  using get_api_effect [of rq e r] get_api_200 [of e rq r] get_api_404 [of e rq r]
    get_p_effect [of rq e r] get_p_200 [of e rq r] get_p_404 [of e rq r]
    get_api_2_effect [of rq e r] get_api_2_200 [of e rq r] get_api_2_404 [of e rq r]
    get_p_2_effect [of rq e r] get_p_2_200 [of e rq r] get_p_2_404 [of e rq r]
    post_other_keys [of _ e prq r] post_2_other_keys [of _ e prq r]
  by blast

text \<open>
  Claim C7 fails where a view is counted by a retrieval that does not succeed. On a
  stored paste whose expiry lies beyond the range of \<open>Date\<close> (a time to live of
  8640000000000 seconds, two views so far, five allowed) the JSON route finds the paste
  available, increments \<open>views\<close> from 2 to 3, and then fails in \<open>toISOString\<close>:
  server.js answers 500, the second server file sends no response, and the counter
  stays incremented.
\<close>

theorem failed_retrieval_counts_view:
  "get_api_pastes_id (env_at 1700000000001) (fetch (js ''3f2a9c1e''))
     (store_with (js ''3f2a9c1e'')
        \<lparr>content = js ''hello'', created_at = 1700000000000,
         ttl_seconds = Some 8640000000000, max_views = Some 5, views = 2\<rparr>) =
   (respond 500 (Json_error ''Internal server error''),
    store_with (js ''3f2a9c1e'')
        \<lparr>content = js ''hello'', created_at = 1700000000000,
         ttl_seconds = Some 8640000000000, max_views = Some 5, views = 3\<rparr>) \<and>
   get_api_pastes_id_2 (env_at 1700000000001) (fetch (js ''3f2a9c1e''))
     (store_with (js ''3f2a9c1e'')
        \<lparr>content = js ''hello'', created_at = 1700000000000,
         ttl_seconds = Some 8640000000000, max_views = Some 5, views = 2\<rparr>) =
   (None,
    store_with (js ''3f2a9c1e'')
        \<lparr>content = js ''hello'', created_at = 1700000000000,
         ttl_seconds = Some 8640000000000, max_views = Some 5, views = 3\<rparr>)"
proof -
  let ?p = "\<lparr>content = js ''hello'', created_at = 1700000000000,
         ttl_seconds = Some 8640000000000, max_views = Some 5, views = 2\<rparr>"
  let ?r = "store_with (js ''3f2a9c1e'') ?p"
  let ?q = "fetch (js ''3f2a9c1e'')"
  let ?e = "env_at 1700000000001"
  have rdy: "ready ?r" and k: "hashes ?r (key_of (params_id ?q)) = Some ?p"
    by (simp_all add: store_with_def fetch_def)
  have c: "content ?p \<noteq> []"
    by (simp add: js_def)
  have t: "\<not> ttl_reached (ttl_of ?p) (createdAt_of ?p) (now ?e ?q)"
    by (simp add: concrete_reads env_at_def)
  have l: "\<not> limit_reached (maxViews_of ?p) (views_of ?p)"
    by (simp add: concrete_reads)
  have n: "can_count ?p"
    by (simp add: concrete_reads)
  have x: "expires_at (ttl_of ?p) (createdAt_of ?p) = Inl RangeError"
    by (simp add: concrete_reads expires_at_def toISOString_def)
  have 1: "get_api_pastes_id ?e ?q ?r =
      (respond 500 (Json_error ''Internal server error''),
       store_with (js ''3f2a9c1e'') (?p\<lparr>views := 3\<rparr>))"
    using get_api_range_error [OF rdy k c t l n x]
    by (simp add: store_with_def fetch_def)
  have 2: "get_api_pastes_id_2 ?e ?q ?r =
      (None, store_with (js ''3f2a9c1e'') (?p\<lparr>views := 3\<rparr>))"
    using get_api_2_range_error [OF rdy k c t l n x]
    by (simp add: store_with_def fetch_def)
  show ?thesis
    using 1 2 by simp
qed

section \<open>Retrievals that do not succeed\<close>

text \<open>
  Claim C3, as amended. On a reachable store, a retrieval of a paste that is absent (or
  has no content), that has reached its time limit, or that has reached its view limit
  is answered with status 404 by every retrieval handler, and the body says which of
  the three it was. server.js answers \<open>Paste not found\<close>, \<open>Paste expired\<close> and
  \<open>View limit exceeded\<close> (in HTML \<open>404 - Paste not found\<close>, \<open>404 - Paste expired\<close>
  and \<open>404 - View limit exceeded\<close>); the second server file answers \<open>Not found\<close>,
  \<open>Expired\<close> and \<open>View limit exceeded\<close> (in HTML \<open>404 - Paste not found\<close>,
  \<open>Expired\<close> and \<open>View limit exceeded\<close>). So the answers for an expired and for an
  exhausted paste differ from the answer for an absent one, and from each other.
\<close>

theorem not_found_status_shared:
  assumes "ready r"
  shows "(hashes r (key_of (params_id rq)) = None \<or>
          (\<exists>p. hashes r (key_of (params_id rq)) = Some p \<and> content p = []) \<longrightarrow>
            fst (get_api_pastes_id e rq r) = respond 404 (Json_error ''Paste not found'') \<and>
            fst (get_p_id e rq r) = respond 404 (Html_error ''<h1>404 - Paste not found</h1>'') \<and>
            fst (get_api_pastes_id_2 e rq r) = Some (respond 404 (Json_error ''Not found'')) \<and>
            fst (get_p_id_2 e rq r) =
              Some (respond 404 (Html_error ''<h1>404 - Paste not found</h1>''))) \<and>
         (\<forall>p. hashes r (key_of (params_id rq)) = Some p \<and> content p \<noteq> [] \<and>
              ttl_reached (ttl_of p) (createdAt_of p) (now e rq) \<longrightarrow>
            fst (get_api_pastes_id e rq r) = respond 404 (Json_error ''Paste expired'') \<and>
            fst (get_p_id e rq r) = respond 404 (Html_error ''<h1>404 - Paste expired</h1>'') \<and>
            fst (get_api_pastes_id_2 e rq r) = Some (respond 404 (Json_error ''Expired'')) \<and>
            fst (get_p_id_2 e rq r) = Some (respond 404 (Html_error ''<h1>Expired</h1>''))) \<and>
         (\<forall>p. hashes r (key_of (params_id rq)) = Some p \<and> content p \<noteq> [] \<and>
              \<not> ttl_reached (ttl_of p) (createdAt_of p) (now e rq) \<and>
              limit_reached (maxViews_of p) (views_of p) \<longrightarrow>
            fst (get_api_pastes_id e rq r) = respond 404 (Json_error ''View limit exceeded'') \<and>
            fst (get_p_id e rq r) =
              respond 404 (Html_error ''<h1>404 - View limit exceeded</h1>'') \<and>
            fst (get_api_pastes_id_2 e rq r) =
              Some (respond 404 (Json_error ''View limit exceeded'')) \<and>
            fst (get_p_id_2 e rq r) =
              Some (respond 404 (Html_error ''<h1>View limit exceeded</h1>''))) \<and>
         status (respond 404 (Json_error ''Paste not found'')) = 404 \<and>
         respond 404 (Json_error ''Paste expired'') \<noteq> respond 404 (Json_error ''Paste not found'') \<and>
         respond 404 (Json_error ''View limit exceeded'') \<noteq>
           respond 404 (Json_error ''Paste not found'') \<and>
         respond 404 (Json_error ''View limit exceeded'') \<noteq>
           respond 404 (Json_error ''Paste expired'') \<and>
         respond 404 (Html_error ''<h1>404 - Paste expired</h1>'') \<noteq>
           respond 404 (Html_error ''<h1>404 - Paste not found</h1>'') \<and>
         respond 404 (Html_error ''<h1>404 - View limit exceeded</h1>'') \<noteq>
           respond 404 (Html_error ''<h1>404 - Paste not found</h1>'') \<and>
         respond 404 (Html_error ''<h1>404 - View limit exceeded</h1>'') \<noteq>
           respond 404 (Html_error ''<h1>404 - Paste expired</h1>'') \<and>
         respond 404 (Json_error ''Expired'') \<noteq> respond 404 (Json_error ''Not found'') \<and>
         respond 404 (Json_error ''View limit exceeded'') \<noteq> respond 404 (Json_error ''Not found'') \<and>
         respond 404 (Json_error ''View limit exceeded'') \<noteq> respond 404 (Json_error ''Expired'') \<and>
         respond 404 (Html_error ''<h1>Expired</h1>'') \<noteq>
           respond 404 (Html_error ''<h1>404 - Paste not found</h1>'') \<and>
         respond 404 (Html_error ''<h1>View limit exceeded</h1>'') \<noteq>
           respond 404 (Html_error ''<h1>404 - Paste not found</h1>'') \<and>
         respond 404 (Html_error ''<h1>View limit exceeded</h1>'') \<noteq>
           respond 404 (Html_error ''<h1>Expired</h1>'')"
proof (intro conjI allI impI)
qed (use assms in \<open>auto simp: get_api_branches get_p_branches get_api_2_branches
       get_p_2_branches respond_def\<close>)

theorem not_found_status_shared_witness:
  "ready (store_with (js ''3f2a9c1e'')
      \<lparr>content = js ''hello'', created_at = 0, ttl_seconds = Some 2,
       max_views = None, views = 0\<rparr>) \<and>
   ttl_reached (Some (Fin 2)) (Fin 0) (now (env_at 2000) (fetch (js ''3f2a9c1e''))) \<and>
   fst (get_api_pastes_id (env_at 2000) (fetch (js ''3f2a9c1e''))
     (store_with (js ''3f2a9c1e'')
      \<lparr>content = js ''hello'', created_at = 0, ttl_seconds = Some 2,
       max_views = None, views = 0\<rparr>)) = respond 404 (Json_error ''Paste expired'') \<and>
   fst (get_p_id (env_at 2000) (fetch (js ''3f2a9c1e''))
     (store_with (js ''3f2a9c1e'')
      \<lparr>content = js ''hello'', created_at = 0, ttl_seconds = Some 2,
       max_views = None, views = 0\<rparr>)) =
     respond 404 (Html_error ''<h1>404 - Paste expired</h1>'') \<and>
   fst (get_api_pastes_id_2 (env_at 2000) (fetch (js ''3f2a9c1e''))
     (store_with (js ''3f2a9c1e'')
      \<lparr>content = js ''hello'', created_at = 0, ttl_seconds = Some 2,
       max_views = None, views = 0\<rparr>)) = Some (respond 404 (Json_error ''Expired'')) \<and>
   fst (get_api_pastes_id (env_at 2000) (fetch (js ''3f2a9c1e'')) empty_store) =
     respond 404 (Json_error ''Paste not found'')"
proof -
  let ?p = "\<lparr>content = js ''hello'', created_at = 0, ttl_seconds = Some 2,
       max_views = None, views = 0\<rparr>"
  let ?r = "store_with (js ''3f2a9c1e'') ?p"
  let ?q = "fetch (js ''3f2a9c1e'')"
  have rdy: "ready ?r" "ready empty_store"
    by (simp_all add: store_with_def empty_store_def)
  have t: "ttl_reached (Some (Fin 2)) (Fin 0) (now (env_at 2000) ?q)"
    by (simp add: concrete_reads env_at_def)
  have h: "hashes ?r (key_of (params_id ?q)) = Some ?p \<and> content ?p \<noteq> [] \<and>
      ttl_reached (ttl_of ?p) (createdAt_of ?p) (now (env_at 2000) ?q)"
    by (simp add: store_with_def fetch_def js_def concrete_reads env_at_def)
  have a: "hashes empty_store (key_of (params_id ?q)) = None"
    by (simp add: empty_store_def)
  from not_found_status_shared [OF rdy(1), of ?q "env_at 2000"] h
    not_found_status_shared [OF rdy(2), of ?q "env_at 2000"] a rdy t
  show ?thesis
    by blast
qed

text \<open>
  The claim C3 as stated does not hold: the answer for an expired paste and the answer
  for an id that was never created differ in their body.
\<close>

theorem not_found_reason_in_body:
  "fst (get_api_pastes_id (env_at 2000) (fetch (js ''3f2a9c1e''))
     (store_with (js ''3f2a9c1e'')
      \<lparr>content = js ''hello'', created_at = 0, ttl_seconds = Some 2,
       max_views = None, views = 0\<rparr>)) = respond 404 (Json_error ''Paste expired'') \<and>
   fst (get_api_pastes_id (env_at 2000) (fetch (js ''3f2a9c1e'')) empty_store) =
     respond 404 (Json_error ''Paste not found'') \<and>
   fst (get_api_pastes_id (env_at 2000) (fetch (js ''3f2a9c1e''))
     (store_with (js ''3f2a9c1e'')
      \<lparr>content = js ''hello'', created_at = 0, ttl_seconds = Some 2,
       max_views = None, views = 0\<rparr>)) \<noteq>
   fst (get_api_pastes_id (env_at 2000) (fetch (js ''3f2a9c1e'')) empty_store)"
proof -
  let ?p = "\<lparr>content = js ''hello'', created_at = 0, ttl_seconds = Some 2,
       max_views = None, views = 0\<rparr>"
  let ?r = "store_with (js ''3f2a9c1e'') ?p"
  let ?q = "fetch (js ''3f2a9c1e'')"
  have 1: "fst (get_api_pastes_id (env_at 2000) ?q ?r) = respond 404 (Json_error ''Paste expired'')"
    using get_api_expired [of ?r ?q ?p "env_at 2000"]
    by (simp add: store_with_def fetch_def concrete_reads env_at_def js_def)
  have 2: "fst (get_api_pastes_id (env_at 2000) ?q empty_store) =
      respond 404 (Json_error ''Paste not found'')"
    using get_api_absent [of empty_store ?q "env_at 2000"]
    by (simp add: empty_store_def)
  show ?thesis
    by (simp add: 1 2 respond_def)
qed

section \<open>Deletion of pastes found expired or exhausted\<close>

text \<open>
  In server.js both retrieval handlers delete a paste they find past its time limit or
  at its view limit, before answering 404; a later retrieval of the id finds nothing.
\<close>

lemma unavailable_paste_deleted:
  assumes "ready r" and "hashes r (key_of (params_id rq)) = Some p" and "content p \<noteq> []"
    and "ttl_reached (ttl_of p) (createdAt_of p) (now e rq) \<or>
         limit_reached (maxViews_of p) (views_of p)"
  shows "hashes (snd (get_api_pastes_id e rq r)) (key_of (params_id rq)) = None"
    and "hashes (snd (get_p_id e rq r)) (key_of (params_id rq)) = None"
    and "status (fst (get_api_pastes_id e rq r)) = 404"
    and "status (fst (get_p_id e rq r)) = 404"
    and "fst (get_api_pastes_id e' rq (snd (get_api_pastes_id e rq r))) =
           respond 404 (Json_error ''Paste not found'')"
proof -
  show a: "hashes (snd (get_api_pastes_id e rq r)) (key_of (params_id rq)) = None"
    using assms
    by (cases "ttl_reached (ttl_of p) (createdAt_of p) (now e rq)")
       (simp_all add: get_api_expired get_api_exhausted)
  show "hashes (snd (get_p_id e rq r)) (key_of (params_id rq)) = None"
    using assms
    by (cases "ttl_reached (ttl_of p) (createdAt_of p) (now e rq)")
       (simp_all add: get_p_expired get_p_exhausted)
  show "status (fst (get_api_pastes_id e rq r)) = 404"
    using assms
    by (cases "ttl_reached (ttl_of p) (createdAt_of p) (now e rq)")
       (simp_all add: get_api_expired get_api_exhausted respond_def)
  show "status (fst (get_p_id e rq r)) = 404"
    using assms
    by (cases "ttl_reached (ttl_of p) (createdAt_of p) (now e rq)")
       (simp_all add: get_p_expired get_p_exhausted respond_def)
  have "ready (snd (get_api_pastes_id e rq r))"
    using assms
    by (cases "ttl_reached (ttl_of p) (createdAt_of p) (now e rq)")
       (simp_all add: get_api_expired get_api_exhausted)
  then show "fst (get_api_pastes_id e' rq (snd (get_api_pastes_id e rq r))) =
           respond 404 (Json_error ''Paste not found'')"
    using a by (simp add: get_api_absent)
qed

text \<open>
  Claim C5 fails on the second server file: its handlers answer 404 for a paste past
  its time limit, or at its view limit, and leave the store as it was, the paste
  still under its key.
\<close>

theorem second_server_keeps_expired_paste:
  "get_api_pastes_id_2 (env_at 2000) (fetch (js ''3f2a9c1e''))
     (store_with (js ''3f2a9c1e'')
      \<lparr>content = js ''hello'', created_at = 0, ttl_seconds = Some 2,
       max_views = None, views = 0\<rparr>) =
   (Some (respond 404 (Json_error ''Expired'')),
    store_with (js ''3f2a9c1e'')
      \<lparr>content = js ''hello'', created_at = 0, ttl_seconds = Some 2,
       max_views = None, views = 0\<rparr>) \<and>
   get_p_id_2 (env_at 2000) (fetch (js ''3f2a9c1e''))
     (store_with (js ''3f2a9c1e'')
      \<lparr>content = js ''x'', created_at = 0, ttl_seconds = None,
       max_views = Some 2, views = 2\<rparr>) =
   (Some (respond 404 (Html_error ''<h1>View limit exceeded</h1>'')),
    store_with (js ''3f2a9c1e'')
      \<lparr>content = js ''x'', created_at = 0, ttl_seconds = None,
       max_views = Some 2, views = 2\<rparr>) \<and>
   hashes (store_with (js ''3f2a9c1e'')
      \<lparr>content = js ''hello'', created_at = 0, ttl_seconds = Some 2,
       max_views = None, views = 0\<rparr>) (key_of (js ''3f2a9c1e'')) =
     Some \<lparr>content = js ''hello'', created_at = 0, ttl_seconds = Some 2,
       max_views = None, views = 0\<rparr>"
proof -
  let ?p = "\<lparr>content = js ''hello'', created_at = 0, ttl_seconds = Some 2,
       max_views = None, views = 0\<rparr>"
  let ?p2 = "\<lparr>content = js ''x'', created_at = 0, ttl_seconds = None,
       max_views = Some 2, views = 2\<rparr>"
  let ?q = "fetch (js ''3f2a9c1e'')"
  have 1: "get_api_pastes_id_2 (env_at 2000) ?q (store_with (js ''3f2a9c1e'') ?p) =
      (Some (respond 404 (Json_error ''Expired'')), store_with (js ''3f2a9c1e'') ?p)"
    using get_api_2_expired [of "store_with (js ''3f2a9c1e'') ?p" ?q ?p "env_at 2000"]
    by (simp add: store_with_def fetch_def concrete_reads env_at_def js_def)
  have 2: "get_p_id_2 (env_at 2000) ?q (store_with (js ''3f2a9c1e'') ?p2) =
      (Some (respond 404 (Html_error ''<h1>View limit exceeded</h1>'')),
       store_with (js ''3f2a9c1e'') ?p2)"
    using get_p_2_exhausted [of "store_with (js ''3f2a9c1e'') ?p2" ?q ?p2 "env_at 2000"]
    by (simp add: store_with_def fetch_def concrete_reads js_def)
  show ?thesis
    by (simp only: 1 2 simp_thms) (simp add: store_with_def)
qed

section \<open>The JSON route and the HTML route\<close>

text \<open>
  The two routes of server.js always leave the same store. They answer with the same
  status unless \<open>toISOString\<close> throws while the JSON body is built.
\<close>

lemma json_html_same_store: "snd (get_api_pastes_id e rq r) = snd (get_p_id e rq r)"
proof (rule retrieval_cases [where r = r and k = "key_of (params_id rq)" and t = "now e rq"])
  fix p
  assume a: "ready r" "hashes r (key_of (params_id rq)) = Some p" "content p \<noteq> []"
    "\<not> ttl_reached (ttl_of p) (createdAt_of p) (now e rq)"
    "\<not> limit_reached (maxViews_of p) (views_of p)" "can_count p"
  show ?thesis
    by (rule expires_at_cases [of "ttl_of p" "createdAt_of p"])
       (simp_all add: a get_api_available get_api_range_error get_p_available)
qed (simp_all add: get_api_branches get_p_branches)

lemma json_html_same_status:
  assumes "\<And>p. hashes r (key_of (params_id rq)) = Some p \<Longrightarrow>
             expires_at (ttl_of p) (createdAt_of p) \<noteq> Inl RangeError"
  shows "status (fst (get_api_pastes_id e rq r)) = status (fst (get_p_id e rq r))"
proof (rule retrieval_cases [where r = r and k = "key_of (params_id rq)" and t = "now e rq"])
  fix p
  assume a: "ready r" "hashes r (key_of (params_id rq)) = Some p" "content p \<noteq> []"
    "\<not> ttl_reached (ttl_of p) (createdAt_of p) (now e rq)"
    "\<not> limit_reached (maxViews_of p) (views_of p)" "can_count p"
  have "\<exists>ex. expires_at (ttl_of p) (createdAt_of p) = Inr ex"
    by (rule expires_at_cases [of "ttl_of p" "createdAt_of p"])
       (use assms [OF a(2)] in simp_all)
  then obtain ex where "expires_at (ttl_of p) (createdAt_of p) = Inr ex" ..
  then show ?thesis
    by (simp add: a get_api_available get_p_available respond_def)
qed (simp_all add: get_api_branches get_p_branches respond_def)

text \<open>
  Claim C10 fails on a stored paste whose expiry lies beyond the range of \<open>Date\<close>
  (here a time to live of 8640000000000 seconds): both routes find it available and
  count the view, the HTML route answers 200 (showing \<open>Invalid Date\<close>), the JSON route
  answers 500, because \<open>toISOString\<close> throws a RangeError inside the \<open>try\<close>.
\<close>

theorem json_fails_where_html_succeeds:
  "get_api_pastes_id (env_at 1700000000001) (fetch (js ''3f2a9c1e''))
     (store_with (js ''3f2a9c1e'')
        \<lparr>content = js ''hello'', created_at = 1700000000000,
         ttl_seconds = Some 8640000000000, max_views = None, views = 0\<rparr>) =
   (respond 500 (Json_error ''Internal server error''),
    store_with (js ''3f2a9c1e'')
        \<lparr>content = js ''hello'', created_at = 1700000000000,
         ttl_seconds = Some 8640000000000, max_views = None, views = 1\<rparr>) \<and>
   get_p_id (env_at 1700000000001) (fetch (js ''3f2a9c1e''))
     (store_with (js ''3f2a9c1e'')
        \<lparr>content = js ''hello'', created_at = 1700000000000,
         ttl_seconds = Some 8640000000000, max_views = None, views = 0\<rparr>) =
   (respond 200 (Html_paste (js ''3f2a9c1e'') (js ''hello'') (Fin 1) None (Some Invalid_Date)),
    store_with (js ''3f2a9c1e'')
        \<lparr>content = js ''hello'', created_at = 1700000000000,
         ttl_seconds = Some 8640000000000, max_views = None, views = 1\<rparr>)"
proof -
  let ?p = "\<lparr>content = js ''hello'', created_at = 1700000000000,
         ttl_seconds = Some 8640000000000, max_views = None, views = 0\<rparr>"
  let ?r = "store_with (js ''3f2a9c1e'') ?p"
  let ?q = "fetch (js ''3f2a9c1e'')"
  have rdy: "ready ?r" and k: "hashes ?r (key_of (params_id ?q)) = Some ?p"
    by (simp_all add: store_with_def fetch_def)
  have c: "content ?p \<noteq> []"
    by (simp add: js_def)
  have t: "\<not> ttl_reached (ttl_of ?p) (createdAt_of ?p) (now (env_at 1700000000001) ?q)"
    by (simp add: concrete_reads env_at_def)
  have l: "\<not> limit_reached (maxViews_of ?p) (views_of ?p)"
    by (simp add: concrete_reads)
  have n: "can_count ?p"
    by (simp add: concrete_reads)
  have x: "expires_at (ttl_of ?p) (createdAt_of ?p) = Inl RangeError"
    by (simp add: concrete_reads expires_at_def toISOString_def)
  have 1: "get_api_pastes_id (env_at 1700000000001) ?q ?r =
      (respond 500 (Json_error ''Internal server error''),
       store_with (js ''3f2a9c1e'') (?p\<lparr>views := 1\<rparr>))"
    using get_api_range_error [OF rdy k c t l n x]
    by (simp add: store_with_def fetch_def)
  have 2: "get_p_id (env_at 1700000000001) ?q ?r =
      (respond 200 (Html_paste (js ''3f2a9c1e'') (js ''hello'') (Fin 1) None (Some Invalid_Date)),
       store_with (js ''3f2a9c1e'') (?p\<lparr>views := 1\<rparr>))"
    using get_p_available [OF rdy k c t l n]
    by (simp add: store_with_def fetch_def shown_limit_def expires_text_def concrete_reads
        toLocaleString_def escapeHtml_def replacement_cases js_def)
  show ?thesis
    using 1 2 by simp
qed

section \<open>Retrieval around the time limit\<close>

text \<open>
  For a stored paste with a time to live \<open>T \<ge> 1\<close>, created at \<open>c \<ge> 0\<close>, whose
  expiry \<open>c + T * 1000\<close> is at most \<open>2^53\<close>: at the expiry or later both routes of
  server.js answer 404; one millisecond earlier, with views left, the HTML route
  answers 200, and the JSON route answers 200 with the content when the expiry is a
  valid date.
\<close>

lemma retrieval_around_expiry:
  assumes "ready r" and "hashes r (key_of (params_id rq)) = Some p" and "content p \<noteq> []"
    and "ttl_seconds p = Some T" and "1 \<le> T"
    and "0 \<le> created_at p" and "created_at p + T * 1000 \<le> 2 ^ 53"
    and "now e rq = Fin t"
  shows "created_at p + T * 1000 \<le> t \<Longrightarrow>
           status (fst (get_api_pastes_id e rq r)) = 404 \<and> status (fst (get_p_id e rq r)) = 404"
    and "t = created_at p + T * 1000 - 1 \<Longrightarrow>
         \<not> limit_reached (maxViews_of p) (views_of p) \<Longrightarrow> can_count p \<Longrightarrow>
         created_at p + T * 1000 \<le> 8640000000000000 \<Longrightarrow>
           fst (get_api_pastes_id e rq r) =
             respond 200 (Json_paste (content p)
               (remaining_views (maxViews_of p) (to_number (views p + 1)))
               (Some (Date_text (created_at p + T * 1000))))"
    and "t = created_at p + T * 1000 - 1 \<Longrightarrow>
         \<not> limit_reached (maxViews_of p) (views_of p) \<Longrightarrow> can_count p \<Longrightarrow>
           status (fst (get_p_id e rq r)) = 200"
proof -
  have s: "T \<noteq> 0" "\<bar>T * 1000\<bar> \<le> 2 ^ 53" "\<bar>created_at p + T * 1000\<bar> \<le> 2 ^ 53"
    "\<bar>created_at p\<bar> \<le> 2 ^ 53" "\<bar>T\<bar> \<le> 2 ^ 53"
    using assms(5,6,7) by simp_all
  have rd: "ttl_of p = Some (Fin T)" "createdAt_of p = Fin (created_at p)"
    using assms(4) s by (simp_all add: ttl_of_def createdAt_of_def to_number_safe)
  note reached = ttl_reached_safe [OF s(1,2,3), of t]
  show "created_at p + T * 1000 \<le> t \<Longrightarrow>
           status (fst (get_api_pastes_id e rq r)) = 404 \<and> status (fst (get_p_id e rq r)) = 404"
    using assms(1,2,3,8) reached
    by (simp add: get_api_expired get_p_expired rd respond_def)
  show "t = created_at p + T * 1000 - 1 \<Longrightarrow>
         \<not> limit_reached (maxViews_of p) (views_of p) \<Longrightarrow> can_count p \<Longrightarrow>
         created_at p + T * 1000 \<le> 8640000000000000 \<Longrightarrow>
           fst (get_api_pastes_id e rq r) =
             respond 200 (Json_paste (content p)
               (remaining_views (maxViews_of p) (to_number (views p + 1)))
               (Some (Date_text (created_at p + T * 1000))))"
  proof -
    assume b: "t = created_at p + T * 1000 - 1"
      "\<not> limit_reached (maxViews_of p) (views_of p)" "can_count p"
      "created_at p + T * 1000 \<le> 8640000000000000"
    from b(4) assms(5,6) have "\<bar>created_at p + T * 1000\<bar> \<le> 8640000000000000"
      by simp
    then have ex: "expires_at (ttl_of p) (createdAt_of p) =
        Inr (Some (Date_text (created_at p + T * 1000)))"
      using expires_at_safe [OF s(1,2,3)] by (simp add: rd)
    have nt: "\<not> ttl_reached (ttl_of p) (createdAt_of p) (now e rq)"
      using reached b(1) assms(8) by (simp add: rd)
    show ?thesis
      using get_api_available [OF assms(1,2,3) nt b(2,3) ex] by simp
  qed
  show "t = created_at p + T * 1000 - 1 \<Longrightarrow>
         \<not> limit_reached (maxViews_of p) (views_of p) \<Longrightarrow> can_count p \<Longrightarrow>
           status (fst (get_p_id e rq r)) = 200"
    using assms(1,2,3,8) reached
    by (simp add: get_p_available rd respond_def)
qed

lemma example_id_text: "take 8 (js ''3f2a9c1e-7b4d-4e8a-9c0f-1a2b3c4d5e6f'') = js ''3f2a9c1e''"
  by (simp add: js_def)

lemma example_id: "take 8 (uuid (env_at t)) = js ''3f2a9c1e''"
  by (simp add: env_at_def example_id_text)

lemma hello_accepted:
  "\<not> content_rejected (JStr (js ''hello''))"
  "\<not> content_rejected (JStr (js ''  hello '' @ [0x0A]))"
  "trim (js ''  hello '' @ [0x0A]) = js ''hello''"
  "trim (js ''hello'') = js ''hello''"
  by (simp_all add: content_rejected_def trim_def js_def is_white_space_def)

lemma long_ttl_accepted:
  "\<not> limit_rejected (JNum 8640000000000)" "\<not> limit_rejected (JNum 3)"
  "\<not> limit_rejected JUndefined"
  "limit_field (JNum 8640000000000) = Some 8640000000000"
  "limit_field (JNum 3) = Some 3" "limit_field JUndefined = None"
  "expire_accepts empty_store 8640000000000"
  by (simp_all add: limit_rejected_def limit_field_def expire_accepts_def int64_def
      empty_store_def)

text \<open>
  Claim C1 fails for a valid time to live so long that the expiry lies beyond the range
  of \<open>Date\<close>. A paste created at 1700000000000 with \<open>ttl_seconds = 8640000000000\<close>
  is accepted (201). Its retrieval one millisecond before the expiry finds it
  available and counts the view, then \<open>toISOString\<close> throws a RangeError: server.js
  answers 500, the second server file sends no response.
\<close>

theorem long_ttl_retrieval_fails:
  "status (fst (post_api_pastes (env_at 1700000000000)
      (request (JStr (js ''hello'')) (JNum 8640000000000) JUndefined) empty_store)) = 201 \<and>
   fst (get_api_pastes_id (test_env_at 1700000000500)
      (fetch_at (js ''3f2a9c1e'') (1700000000000 + 8640000000000 * 1000 - 1))
      (snd (post_api_pastes (env_at 1700000000000)
         (request (JStr (js ''hello'')) (JNum 8640000000000) JUndefined) empty_store))) =
     respond 500 (Json_error ''Internal server error'') \<and>
   fst (get_api_pastes_id_2 (test_env_at 1700000000500)
      (fetch_at (js ''3f2a9c1e'') (1700000000000 + 8640000000000 * 1000 - 1))
      (snd (post_api_pastes_2 (env_at 1700000000000)
         (request (JStr (js ''hello'')) (JNum 8640000000000) JUndefined) empty_store))) = None"
proof -
  let ?rq = "request (JStr (js ''hello'')) (JNum 8640000000000) JUndefined"
  let ?p = "\<lparr>content = js ''hello'', created_at = 1700000000000,
      ttl_seconds = Some 8640000000000, max_views = None, views = 0\<rparr>"
  let ?r1 = "empty_store\<lparr>hashes := [key_of (js ''3f2a9c1e'') \<mapsto> ?p],
      expires := [key_of (js ''3f2a9c1e'') \<mapsto> 8640000000000]\<rparr>"
  let ?r2 = "empty_store\<lparr>hashes := [key_of (js ''3f2a9c1e'') \<mapsto> ?p]\<rparr>"
  let ?q = "fetch_at (js ''3f2a9c1e'') (1700000000000 + 8640000000000 * 1000 - 1)"
  let ?e = "test_env_at 1700000000500"
  have post: "post_api_pastes (env_at 1700000000000) ?rq empty_store =
      (respond 201 (Json_created (js ''3f2a9c1e'')
         (baseUrl (host ?rq) @ js ''/p/'' @ js ''3f2a9c1e'')), ?r1)"
    using post_created [of empty_store ?rq "env_at 1700000000000"]
    by (simp add: example_id) (simp add: request_def empty_store_def env_at_def
        hello_accepted long_ttl_accepted [unfolded empty_store_def] string_of_def
        example_id_text scrub_examples)
  have post2: "snd (post_api_pastes_2 (env_at 1700000000000) ?rq empty_store) = ?r2"
    using post_2_created [of empty_store ?rq "env_at 1700000000000"]
    by (simp add: example_id) (simp add: request_def empty_store_def env_at_def
        hello_accepted long_ttl_accepted string_of_def example_id_text scrub_examples)
  have c: "content ?p \<noteq> []"
    by (simp add: js_def)
  have t: "\<not> ttl_reached (ttl_of ?p) (createdAt_of ?p) (now ?e ?q)"
    by (simp add: concrete_reads test_env_at_def fetch_at_def)
  have l: "\<not> limit_reached (maxViews_of ?p) (views_of ?p)"
    by (simp add: concrete_reads)
  have n: "can_count ?p"
    by (simp add: concrete_reads)
  have x: "expires_at (ttl_of ?p) (createdAt_of ?p) = Inl RangeError"
    by (simp add: concrete_reads expires_at_def toISOString_def)
  have 1: "fst (get_api_pastes_id ?e ?q ?r1) = respond 500 (Json_error ''Internal server error'')"
    using get_api_range_error [of ?r1 ?q ?p ?e, OF _ _ c t l n x]
    by (simp add: fetch_at_def empty_store_def)
  have 2: "fst (get_api_pastes_id_2 ?e ?q ?r2) = None"
    using get_api_2_range_error [of ?r2 ?q ?p ?e, OF _ _ c t l n x]
    by (simp add: fetch_at_def empty_store_def)
  show ?thesis
    by (simp only: post post2 fst_conv snd_conv 1 2) (simp add: respond_def)
qed

section \<open>Creation followed by retrieval\<close>

text \<open>
  Rounding keeps a positive integer positive, so a fresh paste with a valid view limit
  has views left.
\<close>

lemma round_even_positive:
  assumes "1 \<le> x"
  shows "1 \<le> round_even x"
proof (cases "\<bar>x\<bar> < 2 ^ 53")
  case True
  with assms show ?thesis by (simp add: round_even_def)
next
  case False
  define e where "e = nat (bitlen x - 53)"
  define q where "q = x div 2 ^ e"
  from assms have pos: "0 < x" "\<bar>x\<bar> = x" "sgn x = 1"
    by simp_all
  from bitlen_bounds [OF pos(1)] have lo: "2 ^ nat (bitlen x - 1) \<le> x"
    by simp
  have "e \<le> nat (bitlen x - 1)"
    by (simp add: e_def pos)
  then have "(2::int) ^ e \<le> 2 ^ nat (bitlen x - 1)"
    by (rule power_increasing) simp
  with lo have "2 ^ e \<le> x"
    by linarith
  then have "1 \<le> q"
    unfolding q_def
    using pos_imp_zdiv_pos_iff [of "2 ^ e" x] by simp
  moreover have "(1::int) \<le> 2 ^ e"
    by simp
  ultimately have "1 * 1 \<le> q * 2 ^ e" "1 * 1 \<le> (q + 1) * 2 ^ e"
    by (intro mult_mono; simp)+
  then have "1 \<le> q * 2 ^ e" "1 \<le> (q + 1) * 2 ^ e"
    by simp_all
  with False show ?thesis
    unfolding q_def e_def by (simp add: round_even_def Let_def pos)
qed

lemma to_number_positive:
  assumes "1 \<le> x"
  shows "to_number x = PosInf \<or> (\<exists>y. 1 \<le> y \<and> to_number x = Fin y)"
  using round_even_positive [OF assms] by (auto simp: to_number_def)

lemma fresh_paste_has_views:
  assumes "valid_limit v"
  shows "\<not> limit_reached (map_option to_number (limit_field v)) (to_number 0)"
proof (cases v)
  case (JNum q)
  with assms have "1 \<le> q"
    by (simp add: valid_limit_def)
  then have "1 \<le> \<lfloor>q\<rfloor>"
    by linarith
  from to_number_positive [OF this] JNum show ?thesis
    by (auto simp: limit_field_def limit_reached_def to_number_safe)
qed (simp_all add: limit_field_def limit_reached_def)

text \<open>
  A valid creation request on a reachable store is stored under the first eight
  characters of the UUID, eight hexadecimal digits, and answered 201 when \<open>EXPIRE\<close>
  accepts its time to live; a retrieval of that id that the time check lets through
  returns the stored content, provided the expiry can be rendered.
\<close>

lemma uuid_prefix:
  assumes "uuid_v4_format u"
  shows "length (take 8 u) = 8" and "list_all is_hex (take 8 u)"
  using assms by (simp_all add: uuid_v4_format_def)

lemma valid_content_stored:
  assumes "valid_content c"
  shows "scrub (trim (string_of c)) \<noteq> []"
  using assms
  by (cases c) (simp_all add: valid_content_def string_of_def scrub_empty_iff)

lemma created_paste_readable:
  assumes "ready r" and "valid_content (body_content rq)"
    and "valid_limit (body_ttl_seconds rq)" and "valid_limit (body_max_views rq)"
    and "uuid_v4_format (uuid e)"
  shows "(case limit_field (body_ttl_seconds rq) of None \<Rightarrow> True | Some t \<Rightarrow> expire_accepts r t)
           \<Longrightarrow> \<exists>url. fst (post_api_pastes e rq r) =
                 respond 201 (Json_created (take 8 (uuid e)) url)"
    and "length (take 8 (uuid e)) = 8 \<and> list_all is_hex (take 8 (uuid e))"
    and "params_id q = take 8 (uuid e) \<Longrightarrow>
         \<not> ttl_reached (map_option to_number (limit_field (body_ttl_seconds rq)))
             (to_number (clock e)) (now e' q) \<Longrightarrow>
         expires_at (map_option to_number (limit_field (body_ttl_seconds rq)))
             (to_number (clock e)) = Inr ex \<Longrightarrow>
         fst (get_api_pastes_id e' q (snd (post_api_pastes e rq r))) =
           respond 200 (Json_paste (scrub (trim (string_of (body_content rq))))
             (remaining_views (map_option to_number (limit_field (body_max_views rq)))
                (to_number 1)) ex)"
proof -
  have ok: "\<not> content_rejected (body_content rq)" "\<not> limit_rejected (body_ttl_seconds rq)"
    "\<not> limit_rejected (body_max_views rq)"
    using assms by (simp_all add: content_rejected_iff limit_rejected_iff)
  show "(case limit_field (body_ttl_seconds rq) of None \<Rightarrow> True | Some t \<Rightarrow> expire_accepts r t)
           \<Longrightarrow> \<exists>url. fst (post_api_pastes e rq r) =
                 respond 201 (Json_created (take 8 (uuid e)) url)"
    using post_created [OF \<open>ready r\<close> ok, of e] by (simp add: respond_def)
  show "length (take 8 (uuid e)) = 8 \<and> list_all is_hex (take 8 (uuid e))"
    using uuid_prefix [OF \<open>uuid_v4_format (uuid e)\<close>] by simp
  let ?p = "\<lparr>content = scrub (trim (string_of (body_content rq))), created_at = clock e,
           ttl_seconds = limit_field (body_ttl_seconds rq),
           max_views = limit_field (body_max_views rq), views = 0\<rparr>"
  let ?r1 = "snd (post_api_pastes e rq r)"
  assume q: "params_id q = take 8 (uuid e)"
    and t: "\<not> ttl_reached (map_option to_number (limit_field (body_ttl_seconds rq)))
             (to_number (clock e)) (now e' q)"
    and x: "expires_at (map_option to_number (limit_field (body_ttl_seconds rq)))
             (to_number (clock e)) = Inr ex"
  have r1: "ready ?r1" "hashes ?r1 (key_of (params_id q)) = Some ?p"
    using post_stored [OF \<open>ready r\<close> ok, of e] by (simp_all add: q)
  have c: "content ?p \<noteq> []"
    using valid_content_stored [OF assms(2)] by simp
  have l: "\<not> limit_reached (maxViews_of ?p) (views_of ?p)"
    using fresh_paste_has_views [OF assms(4)] by (simp add: maxViews_of_def views_of_def)
  have n: "can_count ?p"
    by (simp add: can_count_def int64_def)
  have "fst (get_api_pastes_id e' q ?r1) =
      respond 200 (Json_paste (content ?p)
        (remaining_views (maxViews_of ?p) (to_number (views ?p + 1))) ex)"
    using get_api_available [OF r1 c _ l n, of e' ex] t x
    by (simp add: ttl_of_def createdAt_of_def)
  then show "fst (get_api_pastes_id e' q ?r1) =
           respond 200 (Json_paste (scrub (trim (string_of (body_content rq))))
             (remaining_views (map_option to_number (limit_field (body_max_views rq)))
                (to_number 1)) ex)"
    by (simp add: maxViews_of_def)
qed

text \<open>
  The same around the time limit, from creation on: a paste created at \<open>c \<ge> 0\<close> with
  a time to live \<open>T \<ge> 1\<close> and an expiry \<open>c + T * 1000\<close> of at most \<open>2^53\<close> is
  refused at the expiry and later, and read one millisecond earlier, by the JSON route
  when the expiry is a valid date.
\<close>

lemma created_paste_expiry:
  assumes "ready r" and "valid_content (body_content rq)"
    and "body_ttl_seconds rq = JNum (of_int T)" and "1 \<le> T"
    and "valid_limit (body_max_views rq)"
    and "params_id q = take 8 (uuid e)"
    and "0 \<le> clock e" and "clock e + T * 1000 \<le> 2 ^ 53" and "now e' q = Fin t"
  shows "clock e + T * 1000 \<le> t \<Longrightarrow>
           status (fst (get_api_pastes_id e' q (snd (post_api_pastes e rq r)))) = 404 \<and>
           status (fst (get_p_id e' q (snd (post_api_pastes e rq r)))) = 404"
    and "t = clock e + T * 1000 - 1 \<Longrightarrow> clock e + T * 1000 \<le> 8640000000000000 \<Longrightarrow>
           fst (get_api_pastes_id e' q (snd (post_api_pastes e rq r))) =
             respond 200 (Json_paste (scrub (trim (string_of (body_content rq))))
               (remaining_views (map_option to_number (limit_field (body_max_views rq)))
                  (to_number 1))
               (Some (Date_text (clock e + T * 1000))))"
    and "t = clock e + T * 1000 - 1 \<Longrightarrow>
           status (fst (get_p_id e' q (snd (post_api_pastes e rq r)))) = 200"
proof -
  let ?p = "\<lparr>content = scrub (trim (string_of (body_content rq))), created_at = clock e,
           ttl_seconds = Some T, max_views = limit_field (body_max_views rq), views = 0\<rparr>"
  let ?r1 = "snd (post_api_pastes e rq r)"
  have vt: "valid_limit (body_ttl_seconds rq)"
    using assms(3,4) by (simp add: valid_limit_def denominator_1_iff)
  have ok: "\<not> content_rejected (body_content rq)" "\<not> limit_rejected (body_ttl_seconds rq)"
    "\<not> limit_rejected (body_max_views rq)"
    using assms(2,5) vt by (simp_all add: content_rejected_iff limit_rejected_iff)
  have lf: "limit_field (body_ttl_seconds rq) = Some T"
    using assms(3) by (simp add: limit_field_def)
  have r1: "ready ?r1" "hashes ?r1 (key_of (params_id q)) = Some ?p"
    using post_stored [OF assms(1) ok, of e] by (simp_all add: lf assms(6))
  have c: "content ?p \<noteq> []"
    using valid_content_stored [OF assms(2)] by simp
  have l: "\<not> limit_reached (maxViews_of ?p) (views_of ?p)"
    using fresh_paste_has_views [OF assms(5)] by (simp add: maxViews_of_def views_of_def)
  have n: "can_count ?p"
    by (simp add: can_count_def int64_def)
  have f: "ttl_seconds ?p = Some T" "0 \<le> created_at ?p" "created_at ?p + T * 1000 \<le> 2 ^ 53"
    using assms(7,8) by simp_all
  note around = retrieval_around_expiry [OF r1 c f(1) assms(4) f(2,3) assms(9)]
  show "clock e + T * 1000 \<le> t \<Longrightarrow>
           status (fst (get_api_pastes_id e' q ?r1)) = 404 \<and>
           status (fst (get_p_id e' q ?r1)) = 404"
    using around(1) by simp
  show "t = clock e + T * 1000 - 1 \<Longrightarrow> clock e + T * 1000 \<le> 8640000000000000 \<Longrightarrow>
           fst (get_api_pastes_id e' q ?r1) =
             respond 200 (Json_paste (scrub (trim (string_of (body_content rq))))
               (remaining_views (map_option to_number (limit_field (body_max_views rq)))
                  (to_number 1))
               (Some (Date_text (clock e + T * 1000))))"
    using around(2) l n by (simp add: maxViews_of_def)
  show "t = clock e + T * 1000 - 1 \<Longrightarrow>
           status (fst (get_p_id e' q ?r1)) = 200"
    using around(3) l n by simp
qed

text \<open>
  Claim C6 fails for the same reason as C1: a request with valid content, a time to
  live of 8640000000000 seconds and three views is created under an id of eight
  hexadecimal digits, and its retrieval at once, at the time of creation, answers 500
  instead of the trimmed content, the view being counted.
\<close>

theorem fresh_paste_with_long_ttl_unreadable:
  "fst (post_api_pastes (env_at 1700000000000)
      (request (JStr (js ''  hello '' @ [0x0A])) (JNum 8640000000000) (JNum 3)) empty_store) =
     respond 201 (Json_created (js ''3f2a9c1e'') (js ''http://localhost:3000/p/3f2a9c1e'')) \<and>
   get_api_pastes_id (env_at 1700000000000) (fetch (js ''3f2a9c1e''))
      (snd (post_api_pastes (env_at 1700000000000)
         (request (JStr (js ''  hello '' @ [0x0A])) (JNum 8640000000000) (JNum 3)) empty_store)) =
     (respond 500 (Json_error ''Internal server error''),
      empty_store
      \<lparr>hashes := [key_of (js ''3f2a9c1e'') \<mapsto>
         \<lparr>content = js ''hello'', created_at = 1700000000000,
          ttl_seconds = Some 8640000000000, max_views = Some 3, views = 1\<rparr>],
       expires := [key_of (js ''3f2a9c1e'') \<mapsto> 8640000000000]\<rparr>)"
proof -
  let ?rq = "request (JStr (js ''  hello '' @ [0x0A])) (JNum 8640000000000) (JNum 3)"
  let ?p = "\<lparr>content = js ''hello'', created_at = 1700000000000,
      ttl_seconds = Some 8640000000000, max_views = Some 3, views = 0\<rparr>"
  let ?r1 = "empty_store\<lparr>hashes := [key_of (js ''3f2a9c1e'') \<mapsto> ?p],
      expires := [key_of (js ''3f2a9c1e'') \<mapsto> 8640000000000]\<rparr>"
  let ?q = "fetch (js ''3f2a9c1e'')"
  let ?e = "env_at 1700000000000"
  have url: "baseUrl (host ?rq) @ js ''/p/'' @ js ''3f2a9c1e'' = js ''http://localhost:3000/p/3f2a9c1e''"
    by (simp add: baseUrl_def request_def js_def)
  have post: "post_api_pastes ?e ?rq empty_store =
      (respond 201 (Json_created (js ''3f2a9c1e'') (js ''http://localhost:3000/p/3f2a9c1e'')), ?r1)"
    using post_created [of empty_store ?rq ?e]
    by (simp add: example_id url) (simp add: request_def empty_store_def env_at_def
        hello_accepted long_ttl_accepted [unfolded empty_store_def] string_of_def
        example_id_text scrub_examples)
  have c: "content ?p \<noteq> []"
    by (simp add: js_def)
  have t: "\<not> ttl_reached (ttl_of ?p) (createdAt_of ?p) (now ?e ?q)"
    by (simp add: concrete_reads env_at_def)
  have l: "\<not> limit_reached (maxViews_of ?p) (views_of ?p)"
    by (simp add: concrete_reads)
  have n: "can_count ?p"
    by (simp add: concrete_reads)
  have x: "expires_at (ttl_of ?p) (createdAt_of ?p) = Inl RangeError"
    by (simp add: concrete_reads expires_at_def toISOString_def)
  have 1: "get_api_pastes_id ?e ?q ?r1 =
     (respond 500 (Json_error ''Internal server error''),
      empty_store\<lparr>hashes := [key_of (js ''3f2a9c1e'') \<mapsto> ?p\<lparr>views := 1\<rparr>],
       expires := [key_of (js ''3f2a9c1e'') \<mapsto> 8640000000000]\<rparr>)"
    using get_api_range_error [of ?r1 ?q ?p ?e, OF _ _ c t l n x]
    by (simp add: fetch_def empty_store_def)
  show ?thesis
    by (simp only: post fst_conv snd_conv 1) simp
qed

section \<open>Counting down the views\<close>

lemma retrievals_append:
  "retrievals (xs @ ys) r =
     (fst (retrievals xs r) @ fst (retrievals ys (snd (retrievals xs r))),
      snd (retrievals ys (snd (retrievals xs r))))"
  by (induction xs arbitrary: r) (simp_all add: split_beta Let_def)

lemma retrievals_2_append:
  "retrievals_2 (xs @ ys) r =
     (fst (retrievals_2 xs r) @ fst (retrievals_2 ys (snd (retrievals_2 xs r))),
      snd (retrievals_2 ys (snd (retrievals_2 xs r))))"
  by (induction xs arbitrary: r) (simp_all add: split_beta Let_def)

lemma upt_shift: "[0..<Suc n] = 0 # map Suc [0..<n]"
  by (simp add: upt_conv_Cons map_Suc_upt del: upt_Suc)

lemma countdown_shift:
  "map (\<lambda>j. F (int m - int v - 1 - int j)) [0..<Suc n] =
     F (int m - int v - 1) # map (\<lambda>j. F (int m - int (Suc v) - 1 - int j)) [0..<n]"
proof -
  have "\<And>j. int m - int v - 1 - int (Suc j) = int m - int (Suc v) - 1 - int j"
    by simp
  then show ?thesis
    by (simp only: upt_shift list.map map_map comp_def) simp
qed

lemma views_sum: "int (Suc v) + int n = int v + int (Suc n)"
  by simp

text \<open>One counted view of a paste with views left, a limit of at most \<open>2^53\<close>.\<close>

lemma counted_view:
  assumes "ready r" and "hashes r (key_of (params_id rq)) = Some p" and "content p \<noteq> []"
    and "max_views p = Some (int m)" and "int m \<le> 2 ^ 53" and "views p = int v" and "v < m"
    and "\<not> ttl_reached (ttl_of p) (createdAt_of p) (now e rq)"
    and "expires_at (ttl_of p) (createdAt_of p) = Inr ex"
  shows "get_api_pastes_id e rq r =
      (respond 200 (Json_paste (content p) (Some (Fin (int m - int v - 1))) ex),
       r\<lparr>hashes := (hashes r)(key_of (params_id rq) \<mapsto> p\<lparr>views := views p + 1\<rparr>)\<rparr>)"
    and "get_api_pastes_id_2 e rq r =
      (Some (respond 200 (Json_paste (content p) (Some (Fin (int m - int v - 1))) ex)),
       r\<lparr>hashes := (hashes r)(key_of (params_id rq) \<mapsto> p\<lparr>views := views p + 1\<rparr>)\<rparr>)"
proof -
  have b: "\<bar>int m\<bar> \<le> 2 ^ 53" "\<bar>int v\<bar> \<le> 2 ^ 53" "\<bar>int v + 1\<bar> \<le> 2 ^ 53"
    "\<bar>int m - (int v + 1)\<bar> \<le> 2 ^ 53" "int m \<noteq> 0"
    using assms(5,7) by simp_all
  have rd: "maxViews_of p = Some (Fin (int m))" "views_of p = Fin (int v)"
    "to_number (views p + 1) = Fin (int v + 1)"
    using assms(4,6) b by (simp_all add: maxViews_of_def views_of_def to_number_safe)
  have l: "\<not> limit_reached (maxViews_of p) (views_of p)"
    using assms(7) b(5) by (simp add: rd limit_reached_safe)
  have n: "can_count p"
    using assms(5,6,7) by (simp add: can_count_def int64_def)
  have rem: "remaining_views (maxViews_of p) (to_number (views p + 1)) =
      Some (Fin (int m - int v - 1))"
    using remaining_views_safe [OF b(5,4)] assms(7) by (simp add: rd)
  show "get_api_pastes_id e rq r =
      (respond 200 (Json_paste (content p) (Some (Fin (int m - int v - 1))) ex),
       r\<lparr>hashes := (hashes r)(key_of (params_id rq) \<mapsto> p\<lparr>views := views p + 1\<rparr>)\<rparr>)"
    using get_api_available [OF assms(1,2,3,8) l n assms(9)] by (simp only: rem)
  show "get_api_pastes_id_2 e rq r =
      (Some (respond 200 (Json_paste (content p) (Some (Fin (int m - int v - 1))) ex)),
       r\<lparr>hashes := (hashes r)(key_of (params_id rq) \<mapsto> p\<lparr>views := views p + 1\<rparr>)\<rparr>)"
    using get_api_2_available [OF assms(1,2,3,8) l n assms(9)] by (simp only: rem)
qed

lemma countdown:
  assumes "ready r" and "hashes r (key_of i) = Some p" and "content p \<noteq> []"
    and "max_views p = Some (int m)" and "int m \<le> 2 ^ 53" and "views p = int v"
    and "v + length qs \<le> m"
    and "\<forall>q\<in>set qs. params_id (snd q) = i \<and>
           \<not> ttl_reached (ttl_of p) (createdAt_of p) (now (fst q) (snd q))"
    and "expires_at (ttl_of p) (createdAt_of p) = Inr ex"
  shows "retrievals qs r =
     (map (\<lambda>j. respond 200 (Json_paste (content p) (Some (Fin (int m - int v - 1 - int j))) ex))
        [0..<length qs],
      r\<lparr>hashes := (hashes r)(key_of i \<mapsto> p\<lparr>views := int v + int (length qs)\<rparr>)\<rparr>)"
  using assms
proof (induction qs arbitrary: r p v)
  case Nil
  then have "p\<lparr>views := int v\<rparr> = p"
    by simp
  with Nil show ?case
    by (simp add: map_upd_triv)
next
  case (Cons q qs)
  let ?p1 = "p\<lparr>views := views p + 1\<rparr>"
  let ?r1 = "r\<lparr>hashes := (hashes r)(key_of i \<mapsto> ?p1)\<rparr>"
  from Cons.prems have vm: "v < m" and qi: "params_id (snd q) = i"
    and qt: "\<not> ttl_reached (ttl_of p) (createdAt_of p) (now (fst q) (snd q))"
    by simp_all
  have step: "get_api_pastes_id (fst q) (snd q) r =
      (respond 200 (Json_paste (content p) (Some (Fin (int m - int v - 1))) ex), ?r1)"
    using counted_view(1) [of r "snd q" p m v "fst q" ex] Cons.prems vm qt
    by (simp add: qi)
  have rest: "retrievals qs ?r1 =
     (map (\<lambda>j. respond 200 (Json_paste (content ?p1) (Some (Fin (int m - int (Suc v) - 1 - int j))) ex))
        [0..<length qs],
      ?r1\<lparr>hashes := (hashes ?r1)(key_of i \<mapsto> ?p1\<lparr>views := int (Suc v) + int (length qs)\<rparr>)\<rparr>)"
    using Cons.prems by (intro Cons.IH) (simp_all add: ttl_of_def createdAt_of_def)
  have "retrievals (q # qs) r =
      (fst (get_api_pastes_id (fst q) (snd q) r) # fst (retrievals qs ?r1),
       snd (retrievals qs ?r1))"
    by (simp add: step split_beta)
  also have "\<dots> =
      (respond 200 (Json_paste (content p) (Some (Fin (int m - int v - 1))) ex) #
       map (\<lambda>j. respond 200 (Json_paste (content p) (Some (Fin (int m - int (Suc v) - 1 - int j))) ex))
         [0..<length qs],
       r\<lparr>hashes := (hashes r)(key_of i \<mapsto> p\<lparr>views := int (Suc v) + int (length qs)\<rparr>)\<rparr>)"
    by (simp only: step rest fst_conv snd_conv) simp
  also have "\<dots> =
      (map (\<lambda>j. respond 200 (Json_paste (content p) (Some (Fin (int m - int v - 1 - int j))) ex))
         [0..<length (q # qs)],
       r\<lparr>hashes := (hashes r)(key_of i \<mapsto> p\<lparr>views := int v + int (length (q # qs))\<rparr>)\<rparr>)"
    by (simp only: length_Cons views_sum
        countdown_shift [where F = "\<lambda>x. respond 200 (Json_paste (content p) (Some (Fin x)) ex)"])
  finally show ?case .
qed

lemma countdown_2:
  assumes "ready r" and "hashes r (key_of i) = Some p" and "content p \<noteq> []"
    and "max_views p = Some (int m)" and "int m \<le> 2 ^ 53" and "views p = int v"
    and "v + length qs \<le> m"
    and "\<forall>q\<in>set qs. params_id (snd q) = i \<and>
           \<not> ttl_reached (ttl_of p) (createdAt_of p) (now (fst q) (snd q))"
    and "expires_at (ttl_of p) (createdAt_of p) = Inr ex"
  shows "retrievals_2 qs r =
     (map (\<lambda>j. Some (respond 200 (Json_paste (content p) (Some (Fin (int m - int v - 1 - int j))) ex)))
        [0..<length qs],
      r\<lparr>hashes := (hashes r)(key_of i \<mapsto> p\<lparr>views := int v + int (length qs)\<rparr>)\<rparr>)"
  using assms
proof (induction qs arbitrary: r p v)
  case Nil
  then have "p\<lparr>views := int v\<rparr> = p"
    by simp
  with Nil show ?case
    by (simp add: map_upd_triv)
next
  case (Cons q qs)
  let ?p1 = "p\<lparr>views := views p + 1\<rparr>"
  let ?r1 = "r\<lparr>hashes := (hashes r)(key_of i \<mapsto> ?p1)\<rparr>"
  from Cons.prems have vm: "v < m" and qi: "params_id (snd q) = i"
    and qt: "\<not> ttl_reached (ttl_of p) (createdAt_of p) (now (fst q) (snd q))"
    by simp_all
  have step: "get_api_pastes_id_2 (fst q) (snd q) r =
      (Some (respond 200 (Json_paste (content p) (Some (Fin (int m - int v - 1))) ex)), ?r1)"
    using counted_view(2) [of r "snd q" p m v "fst q" ex] Cons.prems vm qt
    by (simp add: qi)
  have rest: "retrievals_2 qs ?r1 =
     (map (\<lambda>j. Some (respond 200 (Json_paste (content ?p1) (Some (Fin (int m - int (Suc v) - 1 - int j))) ex)))
        [0..<length qs],
      ?r1\<lparr>hashes := (hashes ?r1)(key_of i \<mapsto> ?p1\<lparr>views := int (Suc v) + int (length qs)\<rparr>)\<rparr>)"
    using Cons.prems by (intro Cons.IH) (simp_all add: ttl_of_def createdAt_of_def)
  have "retrievals_2 (q # qs) r =
      (fst (get_api_pastes_id_2 (fst q) (snd q) r) # fst (retrievals_2 qs ?r1),
       snd (retrievals_2 qs ?r1))"
    by (simp add: step split_beta)
  also have "\<dots> =
      (Some (respond 200 (Json_paste (content p) (Some (Fin (int m - int v - 1))) ex)) #
       map (\<lambda>j. Some (respond 200 (Json_paste (content p) (Some (Fin (int m - int (Suc v) - 1 - int j))) ex)))
         [0..<length qs],
       r\<lparr>hashes := (hashes r)(key_of i \<mapsto> p\<lparr>views := int (Suc v) + int (length qs)\<rparr>)\<rparr>)"
    by (simp only: step rest fst_conv snd_conv) simp
  also have "\<dots> =
      (map (\<lambda>j. Some (respond 200 (Json_paste (content p) (Some (Fin (int m - int v - 1 - int j))) ex)))
         [0..<length (q # qs)],
       r\<lparr>hashes := (hashes r)(key_of i \<mapsto> p\<lparr>views := int v + int (length (q # qs))\<rparr>)\<rparr>)"
    by (simp only: length_Cons views_sum
        countdown_shift [where F = "\<lambda>x. Some (respond 200 (Json_paste (content p) (Some (Fin x)) ex))"])
  finally show ?case .
qed

text \<open>
  Claim C2, as amended. A paste is created on a reachable store from valid content and
  \<open>max_views = m\<close> with \<open>1 \<le> m \<le> 2^53\<close>; its time to live is absent, or its
  expiry can be rendered and none of the retrievals has reached it. Then the first
  \<open>m\<close> retrievals of its id, one after the other, answer 200 with the stored content
  and \<open>remaining_views\<close> \<open>m - 1\<close>, \<open>m - 2\<close>, ..., \<open>0\<close> in this order, and the next
  retrieval answers 404, in both server files. The \<open>j\<close>-th of these values is
  \<open>max(max_views - newViews, 0)\<close> at the counter \<open>newViews = j\<close> that the retrieval
  itself has just written, where the subtraction is exact up to \<open>2^53\<close>.
\<close>

theorem view_limit_countdown:
  assumes "ready r" and "valid_content (body_content rq)"
    and "valid_limit (body_ttl_seconds rq)"
    and "body_max_views rq = JNum (of_nat m)" and "1 \<le> m" and "m \<le> 2 ^ 53"
    and "length qs = m"
    and "\<forall>q\<in>set (qs @ [q']). params_id (snd q) = take 8 (uuid e) \<and>
           \<not> ttl_reached (map_option to_number (limit_field (body_ttl_seconds rq)))
               (to_number (clock e)) (now (fst q) (snd q))"
    and "expires_at (map_option to_number (limit_field (body_ttl_seconds rq)))
           (to_number (clock e)) = Inr ex"
  shows "fst (retrievals (qs @ [q']) (snd (post_api_pastes e rq r))) =
           map (\<lambda>j. respond 200 (Json_paste (scrub (trim (string_of (body_content rq))))
                  (Some (Fin (int m - 1 - int j))) ex)) [0..<m]
           @ [respond 404 (Json_error ''View limit exceeded'')] \<and>
         fst (retrievals_2 (qs @ [q']) (snd (post_api_pastes_2 e rq r))) =
           map (\<lambda>j. Some (respond 200 (Json_paste (scrub (trim (string_of (body_content rq))))
                  (Some (Fin (int m - 1 - int j))) ex))) [0..<m]
           @ [Some (respond 404 (Json_error ''View limit exceeded''))] \<and>
         (\<forall>j<m. remaining_views (Some (Fin (int m))) (Fin (int j + 1)) =
                  Some (Fin (int m - 1 - int j))) \<and>
         (\<forall>M n. M \<noteq> 0 \<and> \<bar>M - n\<bar> \<le> 2 ^ 53 \<longrightarrow>
                  remaining_views (Some (Fin M)) (Fin n) = Some (Fin (max (M - n) 0)))"
proof -
  let ?i = "take 8 (uuid e)"
  let ?p = "\<lparr>content = scrub (trim (string_of (body_content rq))), created_at = clock e,
      ttl_seconds = limit_field (body_ttl_seconds rq), max_views = Some (int m), views = 0\<rparr>"
  have vl: "valid_limit (body_max_views rq)"
    using assms(4,5) by (simp add: valid_limit_def denominator_1_iff)
  have ok: "\<not> content_rejected (body_content rq)" "\<not> limit_rejected (body_ttl_seconds rq)"
    "\<not> limit_rejected (body_max_views rq)"
    using assms(2,3) vl by (simp_all add: content_rejected_iff limit_rejected_iff)
  have lf: "limit_field (body_max_views rq) = Some (int m)"
    using assms(4) by (simp add: limit_field_def)
  have mb: "int m \<le> 2 ^ 53"
    using assms(6) by (metis of_nat_le_iff of_nat_numeral of_nat_power)
  have c: "content ?p \<noteq> []"
    using valid_content_stored [OF assms(2)] by simp
  have rd: "ttl_of ?p = map_option to_number (limit_field (body_ttl_seconds rq))"
    "createdAt_of ?p = to_number (clock e)"
    "ttl_of (?p\<lparr>views := int m\<rparr>) = map_option to_number (limit_field (body_ttl_seconds rq))"
    "createdAt_of (?p\<lparr>views := int m\<rparr>) = to_number (clock e)"
    by (simp_all add: ttl_of_def createdAt_of_def)
  have qs: "\<forall>q\<in>set qs. params_id (snd q) = ?i \<and>
      \<not> ttl_reached (ttl_of ?p) (createdAt_of ?p) (now (fst q) (snd q))"
    and q': "params_id (snd q') = ?i"
    and open_end: "\<not> ttl_reached (ttl_of (?p\<lparr>views := int m\<rparr>))
      (createdAt_of (?p\<lparr>views := int m\<rparr>)) (now (fst q') (snd q'))"
    using assms(8) by (simp_all add: ttl_of_def createdAt_of_def)
  have ex: "expires_at (ttl_of ?p) (createdAt_of ?p) = Inr ex"
    using assms(9) by (simp add: rd)
  have full: "limit_reached (maxViews_of (?p\<lparr>views := int m\<rparr>))
      (views_of (?p\<lparr>views := int m\<rparr>))"
    using assms(5) mb by (simp add: maxViews_of_def views_of_def to_number_safe limit_reached_safe)
  have "fst (retrievals (qs @ [q']) (snd (post_api_pastes e rq r))) =
      map (\<lambda>j. respond 200 (Json_paste (content ?p) (Some (Fin (int m - int 0 - 1 - int j))) ex))
        [0..<length qs] @ [respond 404 (Json_error ''View limit exceeded'')]"
  proof -
    let ?r1 = "snd (post_api_pastes e rq r)"
    have r1: "ready ?r1" "hashes ?r1 (key_of ?i) = Some ?p"
      using post_stored [OF assms(1) ok, of e] by (simp_all add: lf)
    have run': "retrievals qs ?r1 =
        (map (\<lambda>j. respond 200 (Json_paste (content ?p) (Some (Fin (int m - int 0 - 1 - int j))) ex))
           [0..<length qs],
         ?r1\<lparr>hashes := (hashes ?r1)(key_of ?i \<mapsto> ?p\<lparr>views := int m\<rparr>)\<rparr>)"
      using countdown [OF r1 c _ mb _ _ qs ex, of 0] assms(7) by simp
    let ?r2 = "?r1\<lparr>hashes := (hashes ?r1)(key_of ?i \<mapsto> ?p\<lparr>views := int m\<rparr>)\<rparr>"
    have last: "get_api_pastes_id (fst q') (snd q') ?r2 =
        (respond 404 (Json_error ''View limit exceeded''),
         ?r2\<lparr>hashes := (hashes ?r2)(key_of (params_id (snd q')) := None),
           expires := (expires ?r2)(key_of (params_id (snd q')) := None)\<rparr>)"
      using get_api_exhausted [of ?r2 "snd q'" "?p\<lparr>views := int m\<rparr>" "fst q'", OF _ _ _ open_end full]
        r1(1) c by (simp add: q')
    show ?thesis
      by (simp only: retrievals_append run' fst_conv snd_conv retrievals.simps last
          Let_def split_conv)
  qed
  moreover
  have "fst (retrievals_2 (qs @ [q']) (snd (post_api_pastes_2 e rq r))) =
      map (\<lambda>j. Some (respond 200 (Json_paste (content ?p) (Some (Fin (int m - int 0 - 1 - int j))) ex)))
        [0..<length qs] @ [Some (respond 404 (Json_error ''View limit exceeded''))]"
  proof -
    let ?r1 = "snd (post_api_pastes_2 e rq r)"
    have r1: "ready ?r1" "hashes ?r1 (key_of ?i) = Some ?p"
      using post_2_created [OF assms(1) ok, of e] assms(1) by (simp_all add: lf)
    have run': "retrievals_2 qs ?r1 =
        (map (\<lambda>j. Some (respond 200 (Json_paste (content ?p) (Some (Fin (int m - int 0 - 1 - int j))) ex)))
           [0..<length qs],
         ?r1\<lparr>hashes := (hashes ?r1)(key_of ?i \<mapsto> ?p\<lparr>views := int m\<rparr>)\<rparr>)"
      using countdown_2 [OF r1 c _ mb _ _ qs ex, of 0] assms(7) by simp
    let ?r2 = "?r1\<lparr>hashes := (hashes ?r1)(key_of ?i \<mapsto> ?p\<lparr>views := int m\<rparr>)\<rparr>"
    have last: "get_api_pastes_id_2 (fst q') (snd q') ?r2 =
        (Some (respond 404 (Json_error ''View limit exceeded'')), ?r2)"
      using get_api_2_exhausted [of ?r2 "snd q'" "?p\<lparr>views := int m\<rparr>" "fst q'", OF _ _ _ open_end full]
        r1(1) c by (simp add: q')
    show ?thesis
      by (simp only: retrievals_2_append run' fst_conv snd_conv retrievals_2.simps last
          Let_def split_conv)
  qed
  moreover
  have "\<forall>j<m. remaining_views (Some (Fin (int m))) (Fin (int j + 1)) =
                  Some (Fin (int m - 1 - int j))"
  proof (intro allI impI)
    fix j
    assume "j < m"
    with mb assms(5) have "int m \<noteq> 0" "\<bar>int m - (int j + 1)\<bar> \<le> 2 ^ 53"
      by simp_all
    from remaining_views_safe [OF this] \<open>j < m\<close>
    show "remaining_views (Some (Fin (int m))) (Fin (int j + 1)) = Some (Fin (int m - 1 - int j))"
      by (simp add: algebra_simps)
  qed
  moreover
  have "\<forall>M n. M \<noteq> 0 \<and> \<bar>M - n\<bar> \<le> 2 ^ 53 \<longrightarrow>
                  remaining_views (Some (Fin M)) (Fin n) = Some (Fin (max (M - n) 0))"
    using remaining_views_safe by blast
  ultimately show ?thesis
    using assms(7) by simp
qed

theorem view_limit_countdown_witness:
  "fst (retrievals
      [(env_at 10, fetch (js ''3f2a9c1e'')), (env_at 20, fetch (js ''3f2a9c1e'')),
       (env_at 30, fetch (js ''3f2a9c1e''))]
      (snd (post_api_pastes (env_at 0) (request (JStr (js ''x'')) JUndefined (JNum 2))
         empty_store))) =
     [respond 200 (Json_paste (js ''x'') (Some (Fin 1)) None),
      respond 200 (Json_paste (js ''x'') (Some (Fin 0)) None),
      respond 404 (Json_error ''View limit exceeded'')] \<and>
   fst (retrievals_2
      [(env_at 10, fetch (js ''3f2a9c1e'')), (env_at 59999, fetch (js ''3f2a9c1e'')),
       (env_at 59999, fetch (js ''3f2a9c1e''))]
      (snd (post_api_pastes_2 (env_at 0) (request (JStr (js ''x'')) (JNum 60) (JNum 2))
         empty_store))) =
     [Some (respond 200 (Json_paste (js ''x'') (Some (Fin 1)) (Some (Date_text 60000)))),
      Some (respond 200 (Json_paste (js ''x'') (Some (Fin 0)) (Some (Date_text 60000)))),
      Some (respond 404 (Json_error ''View limit exceeded''))] \<and>
   remaining_views (Some (Fin 2)) (Fin 5) = Some (Fin 0)"
proof -
  let ?rq = "request (JStr (js ''x'')) JUndefined (JNum 2)"
  let ?rt = "request (JStr (js ''x'')) (JNum 60) (JNum 2)"
  let ?qs = "[(env_at 10, fetch (js ''3f2a9c1e'')), (env_at 20, fetch (js ''3f2a9c1e''))]"
  let ?q = "(env_at 30, fetch (js ''3f2a9c1e''))"
  let ?qt = "[(env_at 10, fetch (js ''3f2a9c1e'')), (env_at 59999, fetch (js ''3f2a9c1e''))]"
  let ?q' = "(env_at 59999, fetch (js ''3f2a9c1e''))"
  have 1: "ready empty_store"
    by (simp add: empty_store_def)
  have t: "trim (js ''x'') = js ''x''"
    by (simp add: trim_def js_def is_white_space_def)
  have 2: "valid_content (body_content ?rq)" "valid_content (body_content ?rt)"
    by (simp_all add: request_def valid_content_def t) (simp_all add: js_def)
  have 3: "valid_limit (body_ttl_seconds ?rq)" "valid_limit (body_ttl_seconds ?rt)"
    by (simp_all add: request_def valid_limit_def denominator_1_iff)
  have 4: "body_max_views ?rq = JNum (of_nat 2)" "body_max_views ?rt = JNum (of_nat 2)"
    by (simp_all add: request_def)
  have 5: "1 \<le> (2::nat)" and small: "(2::nat) \<le> 2 ^ 53" and 6: "length ?qs = 2" "length ?qt = 2"
    by simp_all
  have 7: "\<forall>q\<in>set (?qs @ [?q]). params_id (snd q) = take 8 (uuid (env_at 0)) \<and>
      \<not> ttl_reached (map_option to_number (limit_field (body_ttl_seconds ?rq)))
          (to_number (clock (env_at 0))) (now (fst q) (snd q))"
    by (simp add: example_id fetch_def request_def limit_field_def ttl_reached_def)
  have lt: "limit_field (body_ttl_seconds ?rt) = Some 60"
    by (simp add: request_def limit_field_def)
  have reach: "\<forall>q\<in>set (?qt @ [?q']). params_id (snd q) = take 8 (uuid (env_at 0)) \<and>
      \<not> ttl_reached (map_option to_number (limit_field (body_ttl_seconds ?rt)))
          (to_number (clock (env_at 0))) (now (fst q) (snd q))"
    by (simp add: lt example_id) (simp add: fetch_def env_at_def now_def to_number_safe ttl_reached_def)
  have 8: "expires_at (map_option to_number (limit_field (body_ttl_seconds ?rq)))
      (to_number (clock (env_at 0))) = Inr None"
    by (simp add: request_def limit_field_def expires_at_def)
  have shown: "expires_at (map_option to_number (limit_field (body_ttl_seconds ?rt)))
      (to_number (clock (env_at 0))) = Inr (Some (Date_text 60000))"
    by (simp add: lt) (simp add: env_at_def to_number_safe expires_at_def toISOString_def)
  have l: "[0..<2] = [0, 1]"
    by (simp add: upt_rec)
  have clamp: "(2::int) \<noteq> 0 \<and> \<bar>(2::int) - 5\<bar> \<le> 2 ^ 53"
    by simp
  from view_limit_countdown [OF 1 2(1) 3(1) 4(1) 5 small 6(1) 7 8] clamp
  have a: "fst (retrievals (?qs @ [?q]) (snd (post_api_pastes (env_at 0) ?rq empty_store))) =
      map (\<lambda>j. respond 200 (Json_paste (scrub (trim (string_of (body_content ?rq))))
             (Some (Fin (int 2 - 1 - int j))) None)) [0..<2]
      @ [respond 404 (Json_error ''View limit exceeded'')]"
    and b: "remaining_views (Some (Fin 2)) (Fin 5) = Some (Fin (max (2 - 5) 0))"
    by blast+
  from view_limit_countdown [OF 1 2(2) 3(2) 4(2) 5 small 6(2) reach shown]
  have c: "fst (retrievals_2 (?qt @ [?q']) (snd (post_api_pastes_2 (env_at 0) ?rt empty_store))) =
      map (\<lambda>j. Some (respond 200 (Json_paste (scrub (trim (string_of (body_content ?rt))))
             (Some (Fin (int 2 - 1 - int j))) (Some (Date_text 60000))))) [0..<2]
      @ [Some (respond 404 (Json_error ''View limit exceeded''))]"
    by blast
  from a b c show ?thesis
    by (simp add: l request_def string_of_def t scrub_examples)
qed

text \<open>
  The claim C2 as stated does not hold for every valid \<open>max_views\<close>: numbers are
  doubles, and beyond \<open>2^53\<close> the subtraction is rounded. With
  \<open>max_views = 9007199254740994\<close> the first retrieval returns
  \<open>remaining_views = 9007199254740992\<close>, which is not \<open>max_views - 1\<close>.
\<close>

theorem remaining_views_rounded:
  "fst (get_api_pastes_id (env_at 10) (fetch (js ''3f2a9c1e''))
      (snd (post_api_pastes (env_at 0)
         (request (JStr (js ''x'')) JUndefined (JNum 9007199254740994)) empty_store))) =
     respond 200 (Json_paste (js ''x'') (Some (Fin 9007199254740992)) None) \<and>
   Fin 9007199254740992 \<noteq> Fin (9007199254740994 - 1)"
proof -
  let ?rq = "request (JStr (js ''x'')) JUndefined (JNum 9007199254740994)"
  let ?p = "\<lparr>content = js ''x'', created_at = 0, ttl_seconds = None,
      max_views = Some 9007199254740994, views = 0\<rparr>"
  let ?r1 = "snd (post_api_pastes (env_at 0) ?rq empty_store)"
  let ?q = "fetch (js ''3f2a9c1e'')"
  have t: "trim (js ''x'') = js ''x''"
    by (simp add: trim_def js_def is_white_space_def)
  have ok: "\<not> content_rejected (body_content ?rq)" "\<not> limit_rejected (body_ttl_seconds ?rq)"
    "\<not> limit_rejected (body_max_views ?rq)"
    by (simp_all add: request_def content_rejected_def limit_rejected_def t) (simp add: js_def)
  have r1: "ready ?r1" "hashes ?r1 (key_of (params_id ?q)) = Some ?p"
    using post_stored [of empty_store ?rq "env_at 0", OF _ ok]
    by (simp_all add: empty_store_def example_id fetch_def)
       (simp add: request_def string_of_def t scrub_examples limit_field_def env_at_def)
  have c: "content ?p \<noteq> []"
    by (simp add: js_def)
  have nt: "\<not> ttl_reached (ttl_of ?p) (createdAt_of ?p) (now (env_at 10) ?q)"
    by (simp add: ttl_of_def ttl_reached_def)
  have l: "\<not> limit_reached (maxViews_of ?p) (views_of ?p)"
    by (simp add: maxViews_of_def views_of_def to_number_beyond_safe to_number_safe
        limit_reached_def)
  have n: "can_count ?p"
    by (simp add: can_count_def int64_def)
  have x: "expires_at (ttl_of ?p) (createdAt_of ?p) = Inr None"
    by (simp add: ttl_of_def expires_at_def)
  have rem: "remaining_views (maxViews_of ?p) (to_number 1) = Some (Fin 9007199254740992)"
    by (simp add: maxViews_of_def remaining_views_def to_number_beyond_safe to_number_safe)
  from get_api_available [OF r1 c nt l n x]
  show ?thesis
    by (simp add: rem)
qed

end
